theory Spec2Isabelle
  imports Main "HOL-Library.Sublist"
begin

section \<open>The DocumentManagement sample (samples/DocumentManagement/Program.py)\<close>

text \<open>
  The sample is a linear Python script that drives a document-database client. The
  embedding makes every effect of the script explicit:
  \<^item> Python values are the datatype \<open>pyval\<close>; a dict is an association list in
    insertion order;
  \<^item> an exception is a value of \<open>exn\<close>, and a computation returns \<open>exn + 'a\<close>
    (\<open>Inl\<close> is a raise);
  \<^item> the world the script acts on (\<open>'c world\<close>) holds the state of the client and the
    service behind it, a store of record objects, the console, and the trace of the
    calls made on the client;
  \<^item> the client (module \<open>pydocumentdb\<close>) and the configuration (module \<open>config\<close>)
    are not part of the sample: they are parameters (\<open>'c sdk\<close>, \<open>config\<close>, \<open>pyenv\<close>).
\<close>

subsection \<open>Python values\<close>

datatype pyval =
    PNone
  | PStr string
  | PInt int
  | PFloat int nat  \<comment> \<open>a float literal \<open>m * 10^-e\<close>, e.g. \<open>419.4589\<close> is \<open>PFloat 4194589 4\<close>; never computed with\<close>
  | PList "pyval list"
  | PDict "(string \<times> pyval) list"

type_synonym dict = "(string \<times> pyval) list"

subsection \<open>Exceptions\<close>

text \<open>
  Modelled from the spec: module \<open>pydocumentdb.errors\<close> is not among the sources. The
  script names two of its classes. \<open>HTTPFailure\<close> is the service error of the
  specification: it carries a status code and a message text. \<open>DocumentDBError\<close> is its
  base class; an error of the base class that is not an \<open>HTTPFailure\<close> has a message
  and no status code. The other constructors are Python's own: \<open>KeyboardInterrupt\<close>
  and \<open>SystemExit\<close> derive from \<open>BaseException\<close> but not from \<open>Exception\<close>.
\<close>

datatype exn =
    HTTPFailure int string
  | DocumentDBError string
  | IndexError
  | KeyError string
  | TypeError
  | AttributeError string
  | OtherException "pyval list"  \<comment> \<open>any other subclass of \<open>Exception\<close>, with its \<open>args\<close>\<close>
  | KeyboardInterrupt
  | SystemExit

fun is_HTTPFailure :: "exn \<Rightarrow> bool" where
  "is_HTTPFailure (HTTPFailure s m) = True"
| "is_HTTPFailure e = False"

fun is_DocumentDBError :: "exn \<Rightarrow> bool" where
  "is_DocumentDBError (HTTPFailure s m) = True"
| "is_DocumentDBError (DocumentDBError m) = True"
| "is_DocumentDBError e = False"

fun is_Exception :: "exn \<Rightarrow> bool" where
  "is_Exception KeyboardInterrupt = False"
| "is_Exception SystemExit = False"
| "is_Exception e = True"

text \<open>\<open>e.status_code\<close>: only an \<open>HTTPFailure\<close> has the attribute.\<close>

fun status_code :: "exn \<Rightarrow> int option" where
  "status_code (HTTPFailure s m) = Some s"
| "status_code e = None"

subsection \<open>Console output\<close>

text \<open>
  A printed line is recorded as the format string and the values formatted into it
  (\<open>print(fmt.format(x))\<close>), so that no rendering of values as text has to be
  modelled. \<open>Message e\<close> and \<open>Args e\<close> stand for \<open>e.message\<close> and \<open>e.args\<close>.
\<close>

datatype parg = Val pyval | Message exn | Args exn

datatype line = Line string "parg list"

definition nl :: string where
  "nl = [CHR 0x0A]"

definition quote :: string where
  "quote = [CHR 0x27]"

subsection \<open>Dictionaries\<close>

text \<open>\<open>d.get(k)\<close> of a dict: the value, or \<open>None\<close>.\<close>

definition dict_get :: "dict \<Rightarrow> string \<Rightarrow> pyval" where
  "dict_get d k = (case map_of d k of None \<Rightarrow> PNone | Some v \<Rightarrow> v)"

text \<open>\<open>d[k]\<close> of a dict: the value, or \<open>KeyError\<close>.\<close>

definition dict_getitem :: "dict \<Rightarrow> string \<Rightarrow> exn + pyval" where
  "dict_getitem d k = (case map_of d k of None \<Rightarrow> Inl (KeyError k) | Some v \<Rightarrow> Inr v)"

text \<open>\<open>d[k] = v\<close>: an existing key keeps its place, a new key goes last.\<close>

fun dict_setitem :: "dict \<Rightarrow> string \<Rightarrow> pyval \<Rightarrow> dict" where
  "dict_setitem [] k v = [(k, v)]"
| "dict_setitem ((k', v') # d) k v =
     (if k' = k then (k, v) # d else (k', v') # dict_setitem d k v)"

text \<open>\<open>x.get(k)\<close>, \<open>x[k]\<close> and \<open>x[k] = v\<close> on any value: only a dict supports them with a
  string key.\<close>

fun py_get :: "pyval \<Rightarrow> string \<Rightarrow> exn + pyval" where
  "py_get (PDict d) k = Inr (dict_get d k)"
| "py_get x k = Inl (AttributeError ''get'')"

fun py_getitem :: "pyval \<Rightarrow> string \<Rightarrow> exn + pyval" where
  "py_getitem (PDict d) k = dict_getitem d k"
| "py_getitem x k = Inl TypeError"

fun py_setitem :: "pyval \<Rightarrow> string \<Rightarrow> pyval \<Rightarrow> exn + pyval" where
  "py_setitem (PDict d) k v = Inr (PDict (dict_setitem d k v))"
| "py_setitem x k v = Inl TypeError"

text \<open>\<open>s + x\<close> for a string \<open>s\<close>: concatenation when \<open>x\<close> is a string, \<open>TypeError\<close>
  otherwise.\<close>

fun str_add :: "string \<Rightarrow> pyval \<Rightarrow> exn + string" where
  "str_add s (PStr t) = Inr (s @ t)"
| "str_add s x = Inl TypeError"

text \<open>\<open>xs[0]\<close> of a list.\<close>

fun first :: "'a list \<Rightarrow> exn + 'a" where
  "first [] = Inl IndexError"
| "first (x # xs) = Inr x"

subsection \<open>Configuration and the standard library\<close>

text \<open>
  Module \<open>config\<close> is not part of the sample: \<open>cfg.settings['host']\<close>,
  \<open>['master_key']\<close>, \<open>['database_id']\<close> and \<open>['collection_id']\<close> are the fields of a
  parameter.
\<close>

record config =
  HOST :: string
  MASTER_KEY :: string
  DATABASE_ID :: string
  COLLECTION_ID :: string

definition database_link :: "config \<Rightarrow> string" where
  "database_link cfg = ''dbs/'' @ DATABASE_ID cfg"

definition collection_link :: "config \<Rightarrow> string" where
  "collection_link cfg = database_link cfg @ ''/colls/'' @ COLLECTION_ID cfg"

definition partition_key :: string where
  "partition_key = ''AccountNumber''"

text \<open>
  What the script needs of Python's \<open>datetime\<close>, which depends on the locale and the
  clock: \<open>strftime_c (y, m, d)\<close> is the text \<open>datetime.date(y, m, d).strftime('%c')\<close>
  gives, \<open>now_c\<close> the text \<open>datetime.datetime.now().strftime('%c')\<close> gives when it is
  evaluated. \<open>has_message\<close> says whether an exception has the attribute \<open>message\<close>:
  it has on Python 2 and has not on Python 3, and the script runs on both.
\<close>

record pyenv =
  strftime_c :: "int \<times> int \<times> int \<Rightarrow> string"
  now_c :: string
  has_message :: bool

text \<open>
  Line 4 of the script is \<open>import datetime\<close>: the name \<open>datetime\<close> is the module, and
  \<open>datetime.x\<close> is a lookup among the module's names. These are the names of the module
  in Python 2.7 and in Python 3.
\<close>

definition datetime_names :: "string list" where
  "datetime_names =
     [''MAXYEAR'', ''MINYEAR'', ''UTC'', ''date'', ''datetime'', ''datetime_CAPI'',
      ''sys'', ''time'', ''timedelta'', ''timezone'', ''tzinfo'']"

definition datetime_getattr :: "string \<Rightarrow> exn + unit" where
  "datetime_getattr name =
     (if name \<in> set datetime_names then Inr () else Inl (AttributeError name))"

text \<open>The three expressions over \<open>datetime\<close> the script evaluates.\<close>

definition date_strftime :: "pyenv \<Rightarrow> int \<Rightarrow> int \<Rightarrow> int \<Rightarrow> exn + pyval" where
  \<comment> \<open>\<open>datetime.date(y, m, d).strftime('%c')\<close>\<close>
  "date_strftime env y m d =
     (case datetime_getattr ''date'' of
        Inl e \<Rightarrow> Inl e
      | Inr u \<Rightarrow> Inr (PStr (strftime_c env (y, m, d))))"

definition min_strftime :: "pyenv \<Rightarrow> exn + pyval" where
  \<comment> \<open>\<open>datetime.min.strftime('%c')\<close>\<close>
  "min_strftime env =
     (case datetime_getattr ''min'' of
        Inl e \<Rightarrow> Inl e
      | Inr u \<Rightarrow> Inr (PStr (strftime_c env (1, 1, 1))))"

definition now_strftime :: "pyenv \<Rightarrow> exn + pyval" where
  \<comment> \<open>\<open>datetime.datetime.now().strftime('%c')\<close>\<close>
  "now_strftime env =
     (case datetime_getattr ''datetime'' of
        Inl e \<Rightarrow> Inl e
      | Inr u \<Rightarrow> Inr (PStr (now_c env)))"

subsection \<open>The client\<close>

text \<open>
  The client object (\<open>document_client.DocumentClient\<close>) and the service behind it are
  external: \<open>'c\<close> is their state, and each method is a function of that state giving
  the outcome of the call (a result, or the exception raised) and the state afterwards.
  \<open>c_ReadDocuments\<close> and \<open>c_QueryDocuments\<close> give the outcome of draining the iterable
  the method returns with \<open>list(...)\<close>. A method receives the value of a record passed
  to it: the client is taken not to write to the script's objects. \<open>c_close\<close> is the
  \<open>close\<close> method the docstring of \<open>IDisposable\<close> speaks of. \<open>IndexKind_Range\<close> and
  \<open>DataType_Number\<close> are the constants \<open>documents.IndexKind.Range\<close> and
  \<open>documents.DataType.Number\<close>.
\<close>

record 'c sdk =
  c_DocumentClient :: "'c \<Rightarrow> string \<Rightarrow> pyval \<Rightarrow> (exn + unit) \<times> 'c"
  c_CreateDatabase :: "'c \<Rightarrow> pyval \<Rightarrow> (exn + pyval) \<times> 'c"
  c_CreateCollection :: "'c \<Rightarrow> string \<Rightarrow> pyval \<Rightarrow> (exn + pyval) \<times> 'c"
  c_CreateDocument :: "'c \<Rightarrow> string \<Rightarrow> pyval \<Rightarrow> (exn + pyval) \<times> 'c"
  c_ReadDocument :: "'c \<Rightarrow> string \<Rightarrow> pyval \<Rightarrow> (exn + pyval) \<times> 'c"
  c_ReadDocuments :: "'c \<Rightarrow> string \<Rightarrow> pyval \<Rightarrow> (exn + pyval list) \<times> 'c"
  c_QueryDocuments :: "'c \<Rightarrow> string \<Rightarrow> pyval \<Rightarrow> (exn + pyval list) \<times> 'c"
  c_ReplaceDocument :: "'c \<Rightarrow> string \<Rightarrow> pyval \<Rightarrow> (exn + pyval) \<times> 'c"
  c_close :: "'c \<Rightarrow> (exn + unit) \<times> 'c"
  c_last_response_headers :: "'c \<Rightarrow> pyval"
  IndexKind_Range :: pyval
  DataType_Number :: pyval

text \<open>The calls made on the client, with their arguments, in the order made.\<close>

datatype call =
    Call_DocumentClient string pyval
  | Call_CreateDatabase pyval
  | Call_CreateCollection string pyval
  | Call_CreateDocument string pyval
  | Call_ReadDocument string pyval
  | Call_ReadDocuments string pyval
  | Call_QueryDocuments string pyval
  | Call_ReplaceDocument string pyval
  | Call_close

subsection \<open>The world and its computations\<close>

text \<open>
  \<open>heap\<close> is the store of the record objects the script holds a reference to (an
  address is a natural number, \<open>heap_next\<close> the next free one); \<open>console\<close> is what has
  been printed; \<open>calls\<close> is the trace of the calls made on the client.
\<close>

record 'c world =
  client :: 'c
  heap :: "nat \<Rightarrow> pyval"
  heap_next :: nat
  console :: "line list"
  calls :: "call list"

type_synonym ('c, 'a) prog = "'c world \<Rightarrow> (exn + 'a) \<times> 'c world"

definition ret :: "'a \<Rightarrow> ('c, 'a) prog" where
  "ret x w = (Inr x, w)"

definition raise :: "exn \<Rightarrow> ('c, 'a) prog" where
  "raise e w = (Inl e, w)"

text \<open>Sequencing: a raise skips the rest.\<close>

definition bind :: "('c, 'a) prog \<Rightarrow> ('a \<Rightarrow> ('c, 'b) prog) \<Rightarrow> ('c, 'b) prog" where
  "bind m f w = (case m w of (Inl e, w') \<Rightarrow> (Inl e, w') | (Inr x, w') \<Rightarrow> f x w')"

text \<open>An expression that may raise and has no other effect.\<close>

definition lift :: "exn + 'a \<Rightarrow> ('c, 'a) prog" where
  "lift r w = (r, w)"

text \<open>\<open>try: m except ... as e: h e\<close>; the handler re-raises what no clause matches.\<close>

definition try_except :: "('c, 'a) prog \<Rightarrow> (exn \<Rightarrow> ('c, 'a) prog) \<Rightarrow> ('c, 'a) prog" where
  "try_except m h w = (case m w of (Inl e, w') \<Rightarrow> h e w' | (Inr x, w') \<Rightarrow> (Inr x, w'))"

text \<open>\<open>try: m finally: f\<close>, for an \<open>f\<close> that cannot raise.\<close>

definition try_finally :: "('c, 'a) prog \<Rightarrow> ('c world \<Rightarrow> 'c world) \<Rightarrow> ('c, 'a) prog" where
  "try_finally m f w = (case m w of (r, w') \<Rightarrow> (r, f w'))"

definition put_line :: "line \<Rightarrow> 'c world \<Rightarrow> 'c world" where
  "put_line l w = w\<lparr>console := console w @ [l]\<rparr>"

definition print :: "line \<Rightarrow> ('c, unit) prog" where
  "print l w = (Inr (), put_line l w)"

text \<open>A call on the client: it is recorded in the trace, and the client's state moves on.\<close>

definition invoke :: "call \<Rightarrow> ('c \<Rightarrow> (exn + 'a) \<times> 'c) \<Rightarrow> ('c, 'a) prog" where
  "invoke c f w =
     (case f (client w) of (r, c') \<Rightarrow> (r, w\<lparr>client := c', calls := calls w @ [c]\<rparr>))"

text \<open>\<open>client.last_response_headers.get(k)\<close>.\<close>

definition response_header :: "'c sdk \<Rightarrow> string \<Rightarrow> ('c, pyval) prog" where
  "response_header sdk k w = (py_get (c_last_response_headers sdk (client w)) k, w)"

text \<open>A record object enters the store and is known by its address from then on.\<close>

definition alloc :: "pyval \<Rightarrow> ('c, nat) prog" where
  "alloc v w =
     (Inr (heap_next w),
      w\<lparr>heap := (heap w)(heap_next w := v), heap_next := Suc (heap_next w)\<rparr>)"

definition load :: "nat \<Rightarrow> ('c, pyval) prog" where
  "load a w = (Inr (heap w a), w)"

definition store :: "nat \<Rightarrow> pyval \<Rightarrow> ('c, unit) prog" where
  "store a v w = (Inr (), w\<lparr>heap := (heap w)(a := v)\<rparr>)"

subsection \<open>class IDisposable\<close>

text \<open>
  \<open>__init__\<close> keeps the object, \<open>__enter__\<close> returns it (the one client of the world,
  so neither has an effect here). \<open>__exit__\<close> is the single statement \<open>self = None\<close>: it
  rebinds the local name \<open>self\<close>, calls nothing and returns \<open>None\<close>, so an exception of
  the body goes on.
\<close>

definition IDisposable_exit :: "('c, unit) prog" where
  "IDisposable_exit = ret ()"

text \<open>\<open>with IDisposable(acquire) as client: body\<close>.\<close>

definition with_IDisposable :: "('c, unit) prog \<Rightarrow> ('c, 'a) prog \<Rightarrow> ('c, 'a) prog" where
  "with_IDisposable acquire body w =
     (case acquire w of
        (Inl e, w1) \<Rightarrow> (Inl e, w1)
      | (Inr u, w1) \<Rightarrow>
          (case body w1 of (r, w2) \<Rightarrow>
             (case IDisposable_exit w2 of
                (Inl e, w3) \<Rightarrow> (Inl e, w3)
              | (Inr u', w3) \<Rightarrow> (r, w3))))"

subsection \<open>class DocumentManagement\<close>

text \<open>The two \<open>except errors.DocumentDBError as e\<close> clauses of \<open>Initialize\<close>: a status
  code of 409 is passed over (\<open>on_conflict\<close> is what that branch does), any other one is
  raised again as \<open>errors.HTTPFailure(e.status_code)\<close>, whose message is the default
  empty text. Reading \<open>e.status_code\<close> of a \<open>DocumentDBError\<close> that has none raises
  \<open>AttributeError\<close> inside the handler. Another exception is not caught.\<close>

definition except_DocumentDBError :: "('c, unit) prog \<Rightarrow> exn \<Rightarrow> ('c, unit) prog" where
  "except_DocumentDBError on_conflict e =
     (if is_DocumentDBError e then
        (case status_code e of
           None \<Rightarrow> raise (AttributeError ''status_code'')
         | Some s \<Rightarrow> if s = 409 then on_conflict else raise (HTTPFailure s []))
      else raise e)"

definition database_definition :: "config \<Rightarrow> pyval" where
  "database_definition cfg = PDict [(''id'', PStr (DATABASE_ID cfg))]"

definition collection_definition :: "'c sdk \<Rightarrow> config \<Rightarrow> pyval" where
  "collection_definition sdk cfg =
     PDict
       [(''id'', PStr (COLLECTION_ID cfg)),
        (''partitionKey'', PDict [(''paths'', PList [PStr ''/account_number''])]),
        (''indexingPolicy'',
           PDict
             [(''includedPaths'',
                 PList
                   [PDict
                      [(''path'', PStr ''/*''),
                       (''indexes'',
                          PList
                            [PDict
                               [(''kind'', IndexKind_Range sdk),
                                (''dataType'', DataType_Number sdk)]])]])])]"

definition Initialize :: "'c sdk \<Rightarrow> config \<Rightarrow> ('c, unit) prog" where
  "Initialize sdk cfg =
     bind (print (Line ''Initializing database for samples'' [])) (\<lambda>u.
     bind
       (try_except
          (bind
             (invoke (Call_CreateDatabase (database_definition cfg))
                (\<lambda>c. c_CreateDatabase sdk c (database_definition cfg))) (\<lambda>r.
           print (Line ''Database with id '{0}' created'' [Val (PStr (DATABASE_ID cfg))])))
          (except_DocumentDBError (ret ()))) (\<lambda>u.
     try_except
       (bind
          (invoke (Call_CreateCollection (database_link cfg) (collection_definition sdk cfg))
             (\<lambda>c. c_CreateCollection sdk c (database_link cfg) (collection_definition sdk cfg)))
          (\<lambda>r.
        print (Line ''Collection with id '{0}' created'' [Val (PStr (COLLECTION_ID cfg))])))
       (except_DocumentDBError
          (print (Line ''Collection with id '{0}' was found''
             [Val (PStr (COLLECTION_ID cfg))])))))"

text \<open>The entries of a dict display are evaluated in order; the first that raises ends
  the evaluation.\<close>

definition bindE :: "exn + 'a \<Rightarrow> ('a \<Rightarrow> exn + 'b) \<Rightarrow> exn + 'b" where
  "bindE r f = (case r of Inl e \<Rightarrow> Inl e | Inr x \<Rightarrow> f x)"

definition GetSalesOrder :: "pyenv \<Rightarrow> pyval \<Rightarrow> exn + pyval" where
  "GetSalesOrder env document_id =
     bindE (date_strftime env 2005 1 10) (\<lambda>order_date.
     bindE (min_strftime env) (\<lambda>shipped_date.
     Inr (PDict
       [(''id'', document_id),
        (''account_number'', PStr ''Account1''),
        (''purchase_order_number'', PStr ''PO18009186470''),
        (''order_date'', order_date),
        (''shipped_date'', shipped_date),
        (''subtotal'', PFloat 4194589 4),
        (''tax_amount'', PFloat 125838 4),
        (''freight'', PFloat 4723108 4),
        (''total_due'', PFloat 985018 3),
        (''items'',
           PList
             [PDict
                [(''order_qty'', PInt 1),
                 (''product_id'', PInt 100),
                 (''unit_price'', PFloat 4184589 4),
                 (''line_price'', PFloat 4184589 4)]]),
        (''ttl'', PInt (60 * 60 * 24 * 30))])))"

definition GetSalesOrderV2 :: "pyenv \<Rightarrow> pyval \<Rightarrow> exn + pyval" where
  "GetSalesOrderV2 env document_id =
     bindE (date_strftime env 2005 7 11) (\<lambda>order_date.
     bindE (date_strftime env 2005 7 21) (\<lambda>due_date.
     bindE (date_strftime env 2005 7 15) (\<lambda>shipped_date.
     Inr (PDict
       [(''id'', document_id),
        (''account_number'', PStr ''Account2''),
        (''purchase_order_number'', PStr ''PO15428132599''),
        (''order_date'', order_date),
        (''due_date'', due_date),
        (''shipped_date'', shipped_date),
        (''subtotal'', PFloat 61070820 4),
        (''tax_amount'', PFloat 5861203 4),
        (''freight'', PFloat 1831626 4),
        (''discount_amt'', PFloat 1982872 3),
        (''total_due'', PFloat 48933929 4),
        (''items'',
           PList
             [PDict
                [(''order_qty'', PInt 3),
                 (''product_code'', PStr ''A-123''),
                 (''product_name'', PStr ''Product 1''),
                 (''currency_symbol'', PStr ''$''),
                 (''currecny_code'', PStr ''USD''),
                 (''unit_price'', PFloat 171 1),
                 (''line_price'', PFloat 57 1)]]),
        (''ttl'', PInt (60 * 60 * 24 * 30))]))))"

definition CreateDocuments :: "'c sdk \<Rightarrow> config \<Rightarrow> pyenv \<Rightarrow> ('c, unit) prog" where
  "CreateDocuments sdk cfg env =
     bind (print (Line (nl @ ''1.1 - Creating Documents'') [])) (\<lambda>u.
     bind (lift (GetSalesOrder env (PStr ''SalesOrder1''))) (\<lambda>sales_order.
     bind
       (invoke (Call_CreateDocument (collection_link cfg) sales_order)
          (\<lambda>c. c_CreateDocument sdk c (collection_link cfg) sales_order)) (\<lambda>r.
     bind (lift (GetSalesOrderV2 env (PStr ''SalesOrder2''))) (\<lambda>sales_order2.
     bind
       (invoke (Call_CreateDocument (collection_link cfg) sales_order2)
          (\<lambda>c. c_CreateDocument sdk c (collection_link cfg) sales_order2)) (\<lambda>r.
     ret ())))))"

definition ReadDocument :: "'c sdk \<Rightarrow> config \<Rightarrow> pyval \<Rightarrow> pyval \<Rightarrow> ('c, unit) prog" where
  "ReadDocument sdk cfg doc_id account_number =
     bind (print (Line (nl @ ''1.2 - Reading Document by Id'' @ nl) [])) (\<lambda>u.
     bind (lift (str_add (collection_link cfg @ ''/docs/'') doc_id)) (\<lambda>document_link.
     bind
       (invoke (Call_ReadDocument document_link (PDict [(''partitionKey'', account_number)]))
          (\<lambda>c. c_ReadDocument sdk c document_link
             (PDict [(''partitionKey'', account_number)]))) (\<lambda>response.
     bind (print (Line ''Document read by Id {0}'' [Val doc_id])) (\<lambda>u.
     bind (response_header sdk ''x-ms-request-charge'') (\<lambda>charge.
     print (Line ''Request Units Charge for reading a Document by Id {0}'' [Val charge]))))))"

text \<open>The loop \<open>for doc in documentlist: print(...format(doc.get('id')))\<close>.\<close>

fun print_ids :: "pyval list \<Rightarrow> ('c, unit) prog" where
  "print_ids [] = ret ()"
| "print_ids (doc # documentlist) =
     bind (lift (py_get doc ''id'')) (\<lambda>i.
     bind (print (Line ''Document Id: {0}'' [Val i])) (\<lambda>u.
     print_ids documentlist))"

definition ReadDocuments :: "'c sdk \<Rightarrow> config \<Rightarrow> ('c, unit) prog" where
  "ReadDocuments sdk cfg =
     bind (print (Line (nl @ ''1.3 - Reading all documents in a collection'' @ nl) []))
       (\<lambda>u.
     bind
       (invoke (Call_ReadDocuments (collection_link cfg) (PDict [(''maxItemCount'', PInt 10)]))
          (\<lambda>c. c_ReadDocuments sdk c (collection_link cfg)
             (PDict [(''maxItemCount'', PInt 10)]))) (\<lambda>documentlist.
     print_ids documentlist))"

text \<open>The query text: the account number is spliced between two quote characters.\<close>

definition query_text :: "pyval \<Rightarrow> exn + string" where
  "query_text account_number =
     bindE (str_add (''SELECT * FROM root r WHERE r.account_number='' @ quote) account_number)
       (\<lambda>q. Inr (q @ quote))"

text \<open>\<open>QueryDocuments\<close> returns \<open>documentlist[0]\<close>, a reference to the first record of
  the list: the record enters the store and its address is returned.\<close>

definition QueryDocuments :: "'c sdk \<Rightarrow> config \<Rightarrow> pyval \<Rightarrow> ('c, nat) prog" where
  "QueryDocuments sdk cfg account_number =
     bind (print (Line (nl @ ''1.4 - Querying for a document using its AccountNumber property'')
       [])) (\<lambda>u.
     bind (lift (query_text account_number)) (\<lambda>q.
     bind
       (invoke (Call_QueryDocuments (collection_link cfg) (PDict [(''query'', PStr q)]))
          (\<lambda>c. c_QueryDocuments sdk c (collection_link cfg) (PDict [(''query'', PStr q)])))
       (\<lambda>documentlist.
     bind (print (Line ''Found document with account_number: {0}'' [Val account_number]))
       (\<lambda>u.
     bind (lift (first documentlist)) (\<lambda>doc.
     alloc doc)))))"

text \<open>\<open>order\<close> is the address of a record object. The function has no \<open>return\<close>
  statement: its value is \<open>None\<close>.\<close>

definition ReplaceDocument :: "'c sdk \<Rightarrow> config \<Rightarrow> pyenv \<Rightarrow> nat \<Rightarrow> ('c, pyval) prog" where
  "ReplaceDocument sdk cfg env order =
     bind (print (Line (nl @ ''1.5 - Replacing a document using its Id'') [])) (\<lambda>u.
     bind (lift (now_strftime env)) (\<lambda>now.
     bind (load order) (\<lambda>obj.
     bind (lift (py_setitem obj ''shipped_date'' now)) (\<lambda>obj'.
     bind (store order obj') (\<lambda>u.
     bind (load order) (\<lambda>obj.
     bind (lift (py_getitem obj ''id'')) (\<lambda>i.
     bind (lift (str_add (collection_link cfg @ ''/docs/'') i)) (\<lambda>document_link.
     bind (load order) (\<lambda>obj.
     bind
       (invoke (Call_ReplaceDocument document_link obj)
          (\<lambda>c. c_ReplaceDocument sdk c document_link obj)) (\<lambda>result.
     bind (response_header sdk ''x-ms-request-charge'') (\<lambda>charge.
     bind (print (Line ''Request charge of replace operation: {0}'' [Val charge])) (\<lambda>u.
     bind (lift (py_getitem result ''shipped_date'')) (\<lambda>shipped.
     bind (print (Line ''Shipped date of updated document: {0}'' [Val shipped])) (\<lambda>u.
     ret PNone))))))))))))))"

subsection \<open>run_sample and the top level\<close>

text \<open>The body of the \<open>try\<close> statement of \<open>run_sample\<close> (lines 234 to 240; the call of
  \<open>CreateDocuments\<close> on line 236 is a comment).\<close>

definition run_sample_body :: "'c sdk \<Rightarrow> config \<Rightarrow> pyenv \<Rightarrow> ('c, unit) prog" where
  "run_sample_body sdk cfg env =
     bind (Initialize sdk cfg) (\<lambda>u.
     bind (ReadDocument sdk cfg (PStr ''SalesOrder1'') (PStr ''Account1'')) (\<lambda>u.
     bind (ReadDocuments sdk cfg) (\<lambda>u.
     bind (QueryDocuments sdk cfg (PStr ''Account1'')) (\<lambda>order.
     bind (ReplaceDocument sdk cfg env order) (\<lambda>r.
     ret ())))))"

text \<open>\<open>except errors.HTTPFailure as e\<close>: print \<open>e.message\<close>, an attribute the
  exception has on Python 2 only: on Python 3 reading it raises \<open>AttributeError\<close> inside
  the handler. Another exception is not caught.\<close>

definition except_HTTPFailure :: "pyenv \<Rightarrow> exn \<Rightarrow> ('c, unit) prog" where
  "except_HTTPFailure env e =
     (if is_HTTPFailure e then
        (if has_message env
         then print (Line (nl @ ''run_sample has caught an error. {0}'') [Message e])
         else raise (AttributeError ''message''))
      else raise e)"

definition run_sample :: "'c sdk \<Rightarrow> config \<Rightarrow> pyenv \<Rightarrow> ('c, unit) prog" where
  "run_sample sdk cfg env =
     with_IDisposable
       (invoke (Call_DocumentClient (HOST cfg) (PDict [(''masterKey'', PStr (MASTER_KEY cfg))]))
          (\<lambda>c. c_DocumentClient sdk c (HOST cfg) (PDict [(''masterKey'', PStr (MASTER_KEY cfg))])))
       (try_finally
          (try_except (run_sample_body sdk cfg env) (except_HTTPFailure env))
          (put_line (Line (nl @ ''run_sample done'') [])))"

text \<open>The \<open>__main__\<close> block: \<open>except Exception as e\<close> prints \<open>e.args\<close>; an exception that
  is not an \<open>Exception\<close> is not caught and ends the process with a traceback.\<close>

definition except_Exception :: "exn \<Rightarrow> ('c, unit) prog" where
  "except_Exception e =
     (if is_Exception e then
        print (Line ''Top level Error: args:{0}, message:N/A'' [Args e])
      else raise e)"

definition main :: "'c sdk \<Rightarrow> config \<Rightarrow> pyenv \<Rightarrow> ('c, unit) prog" where
  "main sdk cfg env = try_except (run_sample sdk cfg env) except_Exception"

subsection \<open>Clients to run the script against\<close>

text \<open>
  Modelled from the spec: the client and the service behind it (package
  \<open>pydocumentdb\<close>) are not among the sources. The theorems take the client as a
  parameter; the clients below are the concrete ones they are instantiated at. The first
  is an in-memory service after section 6 of the specification: databases by id,
  collections by the link of their database and their id, records by their link. An
  existing resource is reported as a 409 conflict, a missing one as 404, a definition
  without a string id as 400. A query selects the records whose \<open>account_number\<close>
  gives the query's text.
\<close>

record service =
  dbs :: "string list"
  colls :: "(string \<times> string) list"
  docs :: "(string \<times> pyval) list"
  charge :: pyval

definition mock_CreateDatabase :: "service \<Rightarrow> pyval \<Rightarrow> (exn + pyval) \<times> service" where
  "mock_CreateDatabase s d =
     (case py_getitem d ''id'' of
        Inr (PStr i) \<Rightarrow>
          if i \<in> set (dbs s) then (Inl (HTTPFailure 409 ''Conflict''), s)
          else (Inr d, s\<lparr>dbs := dbs s @ [i]\<rparr>)
      | _ \<Rightarrow> (Inl (HTTPFailure 400 ''Bad Request''), s))"

definition mock_CreateCollection ::
  "service \<Rightarrow> string \<Rightarrow> pyval \<Rightarrow> (exn + pyval) \<times> service" where
  "mock_CreateCollection s link d =
     (case py_getitem d ''id'' of
        Inr (PStr i) \<Rightarrow>
          if link \<notin> set (map (\<lambda>db. ''dbs/'' @ db) (dbs s))
          then (Inl (HTTPFailure 404 ''Not Found''), s)
          else if (link, i) \<in> set (colls s) then (Inl (HTTPFailure 409 ''Conflict''), s)
          else (Inr d, s\<lparr>colls := colls s @ [(link, i)]\<rparr>)
      | _ \<Rightarrow> (Inl (HTTPFailure 400 ''Bad Request''), s))"

definition mock_CreateDocument ::
  "service \<Rightarrow> string \<Rightarrow> pyval \<Rightarrow> (exn + pyval) \<times> service" where
  "mock_CreateDocument s link d =
     (case py_getitem d ''id'' of
        Inr (PStr i) \<Rightarrow>
          if link \<notin> set (map (\<lambda>(db, c). db @ ''/colls/'' @ c) (colls s))
          then (Inl (HTTPFailure 404 ''Not Found''), s)
          else if link @ ''/docs/'' @ i \<in> set (map fst (docs s))
          then (Inl (HTTPFailure 409 ''Conflict''), s)
          else (Inr d, s\<lparr>docs := docs s @ [(link @ ''/docs/'' @ i, d)]\<rparr>)
      | _ \<Rightarrow> (Inl (HTTPFailure 400 ''Bad Request''), s))"

definition mock_ReadDocument ::
  "service \<Rightarrow> string \<Rightarrow> pyval \<Rightarrow> (exn + pyval) \<times> service" where
  "mock_ReadDocument s link options =
     (case map_of (docs s) link of
        None \<Rightarrow> (Inl (HTTPFailure 404 ''Not Found''), s)
      | Some d \<Rightarrow> (Inr d, s))"

definition mock_ReadDocuments ::
  "service \<Rightarrow> string \<Rightarrow> pyval \<Rightarrow> (exn + pyval list) \<times> service" where
  "mock_ReadDocuments s link options =
     (Inr (map snd (filter (\<lambda>(l, d). prefix (link @ ''/docs/'') l) (docs s))), s)"

definition mock_QueryDocuments ::
  "service \<Rightarrow> string \<Rightarrow> pyval \<Rightarrow> (exn + pyval list) \<times> service" where
  "mock_QueryDocuments s link options =
     (case py_getitem options ''query'' of
        Inr (PStr q) \<Rightarrow>
          (Inr (map snd (filter
             (\<lambda>(l, d). prefix (link @ ''/docs/'') l \<and>
                (case py_get d ''account_number'' of
                   Inr a \<Rightarrow> query_text a = Inr q
                 | Inl e \<Rightarrow> False))
             (docs s))), s)
      | _ \<Rightarrow> (Inl (HTTPFailure 400 ''Bad Request''), s))"

definition mock_ReplaceDocument ::
  "service \<Rightarrow> string \<Rightarrow> pyval \<Rightarrow> (exn + pyval) \<times> service" where
  "mock_ReplaceDocument s link d =
     (if link \<in> set (map fst (docs s))
      then (Inr d, s\<lparr>docs := map (\<lambda>(l, x). if l = link then (l, d) else (l, x)) (docs s)\<rparr>)
      else (Inl (HTTPFailure 404 ''Not Found''), s))"

definition mock_sdk :: "service sdk" where
  "mock_sdk =
     \<lparr>c_DocumentClient = (\<lambda>s host options. (Inr (), s)),
      c_CreateDatabase = mock_CreateDatabase,
      c_CreateCollection = mock_CreateCollection,
      c_CreateDocument = mock_CreateDocument,
      c_ReadDocument = mock_ReadDocument,
      c_ReadDocuments = mock_ReadDocuments,
      c_QueryDocuments = mock_QueryDocuments,
      c_ReplaceDocument = mock_ReplaceDocument,
      c_close = (\<lambda>s. (Inr (), s)),
      c_last_response_headers = (\<lambda>s. PDict [(''x-ms-request-charge'', charge s)]),
      IndexKind_Range = PStr ''Range'',
      DataType_Number = PStr ''Number''\<rparr>"

text \<open>A client without a service behind it: a method for which \<open>f\<close> names an exception
  raises it, any other returns \<open>None\<close> (an empty sequence for the two that yield
  records).\<close>

definition stub_sdk :: "(string \<Rightarrow> exn option) \<Rightarrow> unit sdk" where
  "stub_sdk f =
     \<lparr>c_DocumentClient = (\<lambda>s host options.
        (case f ''DocumentClient'' of None \<Rightarrow> Inr () | Some e \<Rightarrow> Inl e, s)),
      c_CreateDatabase = (\<lambda>s d.
        (case f ''CreateDatabase'' of None \<Rightarrow> Inr PNone | Some e \<Rightarrow> Inl e, s)),
      c_CreateCollection = (\<lambda>s link d.
        (case f ''CreateCollection'' of None \<Rightarrow> Inr PNone | Some e \<Rightarrow> Inl e, s)),
      c_CreateDocument = (\<lambda>s link d.
        (case f ''CreateDocument'' of None \<Rightarrow> Inr PNone | Some e \<Rightarrow> Inl e, s)),
      c_ReadDocument = (\<lambda>s link options.
        (case f ''ReadDocument'' of None \<Rightarrow> Inr PNone | Some e \<Rightarrow> Inl e, s)),
      c_ReadDocuments = (\<lambda>s link options.
        (case f ''ReadDocuments'' of None \<Rightarrow> Inr [] | Some e \<Rightarrow> Inl e, s)),
      c_QueryDocuments = (\<lambda>s link options.
        (case f ''QueryDocuments'' of None \<Rightarrow> Inr [] | Some e \<Rightarrow> Inl e, s)),
      c_ReplaceDocument = (\<lambda>s link d.
        (case f ''ReplaceDocument'' of None \<Rightarrow> Inr PNone | Some e \<Rightarrow> Inl e, s)),
      c_close = (\<lambda>s. (Inr (), s)),
      c_last_response_headers = (\<lambda>s. PDict []),
      IndexKind_Range = PStr ''Range'',
      DataType_Number = PStr ''Number''\<rparr>"

text \<open>A client whose every method raises the same exception, except the constructor.\<close>

definition failing_sdk :: "exn \<Rightarrow> unit sdk" where
  "failing_sdk e = stub_sdk (\<lambda>m. if m = ''DocumentClient'' then None else Some e)"

text \<open>A configuration, an environment (Python 2 in the C locale, with the \<open>%c\<close> text
  of the dates the script formats) and worlds to start from.\<close>

definition cfg0 :: config where
  "cfg0 = \<lparr>HOST = ''https://localhost:443'', MASTER_KEY = ''key'',
            DATABASE_ID = ''db'', COLLECTION_ID = ''coll''\<rparr>"

definition env0 :: pyenv where
  "env0 =
     \<lparr>strftime_c = (\<lambda>(y, m, d).
        if (y, m, d) = (2005, 1, 10) then ''Mon Jan 10 00:00:00 2005''
        else if (y, m, d) = (2005, 7, 11) then ''Mon Jul 11 00:00:00 2005''
        else if (y, m, d) = (2005, 7, 21) then ''Thu Jul 21 00:00:00 2005''
        else if (y, m, d) = (2005, 7, 15) then ''Fri Jul 15 00:00:00 2005''
        else ''another date''),
      now_c = ''Wed Nov  4 09:00:00 2026'',
      has_message = True\<rparr>"

definition world0 :: "'c \<Rightarrow> 'c world" where
  "world0 c = \<lparr>client = c, heap = (\<lambda>a. PNone), heap_next = 0, console = [], calls = []\<rparr>"

definition empty_service :: service where
  "empty_service = \<lparr>dbs = [], colls = [], docs = [], charge = PFloat 1 0\<rparr>"

text \<open>A sales order as the service holds it: the record \<open>GetSalesOrder\<close> is written to
  build, with a shipped date in place of the one it fails to evaluate.\<close>

definition order1 :: pyval where
  "order1 =
     PDict
       [(''id'', PStr ''SalesOrder1''),
        (''account_number'', PStr ''Account1''),
        (''purchase_order_number'', PStr ''PO18009186470''),
        (''order_date'', PStr ''Mon Jan 10 00:00:00 2005''),
        (''shipped_date'', PStr ''Wed Jan 12 00:00:00 2005''),
        (''ttl'', PInt 2592000)]"

definition seeded_service :: service where
  "seeded_service =
     \<lparr>dbs = [''db''], colls = [(''dbs/db'', ''coll'')],
      docs = [(''dbs/db/colls/coll/docs/SalesOrder1'', order1)], charge = PFloat 1 0\<rparr>"



text \<open>A world whose store holds one record, at address 0.\<close>

definition world_with :: "'c \<Rightarrow> pyval \<Rightarrow> 'c world" where
  "world_with c v =
     \<lparr>client = c, heap = (\<lambda>a. PNone)(0 := v), heap_next = 1, console = [], calls = []\<rparr>"

text \<open>The same sales order once it has been replaced at the time \<open>now_c env0\<close>, and a
  service that holds it.\<close>

definition order_now :: pyval where
  "order_now =
     PDict
       [(''id'', PStr ''SalesOrder1''),
        (''account_number'', PStr ''Account1''),
        (''purchase_order_number'', PStr ''PO18009186470''),
        (''order_date'', PStr ''Mon Jan 10 00:00:00 2005''),
        (''shipped_date'', PStr ''Wed Nov  4 09:00:00 2026''),
        (''ttl'', PInt 2592000)]"

definition service_now :: service where
  "service_now =
     \<lparr>dbs = [''db''], colls = [(''dbs/db'', ''coll'')],
      docs = [(''dbs/db/colls/coll/docs/SalesOrder1'', order_now)], charge = PFloat 1 0\<rparr>"

subsection \<open>Reading a run off the world\<close>

text \<open>The method of the client a call is made on.\<close>

fun method_of :: "call \<Rightarrow> string" where
  "method_of (Call_DocumentClient host options) = ''DocumentClient''"
| "method_of (Call_CreateDatabase d) = ''CreateDatabase''"
| "method_of (Call_CreateCollection link d) = ''CreateCollection''"
| "method_of (Call_CreateDocument link d) = ''CreateDocument''"
| "method_of (Call_ReadDocument link options) = ''ReadDocument''"
| "method_of (Call_ReadDocuments link options) = ''ReadDocuments''"
| "method_of (Call_QueryDocuments link options) = ''QueryDocuments''"
| "method_of (Call_ReplaceDocument link d) = ''ReplaceDocument''"
| "method_of Call_close = ''close''"

text \<open>Each operation of \<open>DocumentManagement\<close> prints a line of its own as its first
  statement, and prints it nowhere else: the operations a run has entered, in order, are
  read off the console.\<close>

definition operation_banners :: "(string \<times> string) list" where
  "operation_banners =
     [(''Initializing database for samples'', ''Initialize''),
      (nl @ ''1.1 - Creating Documents'', ''CreateDocuments''),
      (nl @ ''1.2 - Reading Document by Id'' @ nl, ''ReadDocument''),
      (nl @ ''1.3 - Reading all documents in a collection'' @ nl, ''ReadDocuments''),
      (nl @ ''1.4 - Querying for a document using its AccountNumber property'',
         ''QueryDocuments''),
      (nl @ ''1.5 - Replacing a document using its Id'', ''ReplaceDocument'')]"

fun operation_of :: "line \<Rightarrow> string list" where
  "operation_of (Line fmt args) =
     (case map_of operation_banners fmt of None \<Rightarrow> [] | Some name \<Rightarrow> [name])"

definition operations :: "line list \<Rightarrow> string list" where
  "operations ls = concat (map operation_of ls)"

subsection \<open>A client that reports conflicts\<close>

text \<open>
  What it is for a client to report conflicts, in any of its states: \<open>databases\<close> and
  \<open>collections\<close> say which resources exist (a database by its id, a collection by the
  link of its database and its id). Creating a resource that exists raises a service
  error with status code 409 and creates nothing; creating one that does not exist (a
  collection: in a database that exists) returns and creates exactly it.
\<close>

definition reports_conflicts ::
  "'c sdk \<Rightarrow> ('c \<Rightarrow> string set) \<Rightarrow> ('c \<Rightarrow> (string \<times> string) set) \<Rightarrow> bool" where
  "reports_conflicts sdk databases collections \<longleftrightarrow>
     (\<forall>c d i r c'.
        py_getitem d ''id'' = Inr (PStr i) \<and> c_CreateDatabase sdk c d = (r, c') \<longrightarrow>
        collections c' = collections c \<and>
        (if i \<in> databases c
         then (\<exists>e. r = Inl e \<and> is_DocumentDBError e \<and> status_code e = Some 409) \<and>
              databases c' = databases c
         else (\<exists>v. r = Inr v) \<and> databases c' = insert i (databases c))) \<and>
     (\<forall>c link d i r c'.
        py_getitem d ''id'' = Inr (PStr i) \<and> link \<in> (\<lambda>db. ''dbs/'' @ db) ` databases c \<and>
        c_CreateCollection sdk c link d = (r, c') \<longrightarrow>
        databases c' = databases c \<and>
        (if (link, i) \<in> collections c
         then (\<exists>e. r = Inl e \<and> is_DocumentDBError e \<and> status_code e = Some 409) \<and>
              collections c' = collections c
         else (\<exists>v. r = Inr v) \<and> collections c' = insert (link, i) (collections c)))"

subsection \<open>The run the script is written to make\<close>

text \<open>\<open>ran w w' ops cs\<close>: between the worlds \<open>w\<close> and \<open>w'\<close> the operations \<open>ops\<close> were
  entered and the calls \<open>cs\<close> made on the client, in this order.\<close>

definition ran :: "'c world \<Rightarrow> 'c world \<Rightarrow> string list \<Rightarrow> call list \<Rightarrow> bool" where
  "ran w w' ops cs \<longleftrightarrow>
     operations (console w') = operations (console w) @ ops \<and> calls w' = calls w @ cs"

text \<open>The operations of \<open>run_sample\<close> in the order of its \<open>try\<close> block, the methods of
  the client they call, and the calls made before the replacement.\<close>

definition sample_operations :: "string list" where
  "sample_operations =
     [''Initialize'', ''ReadDocument'', ''ReadDocuments'', ''QueryDocuments'',
      ''ReplaceDocument'']"

definition sample_methods :: "string list" where
  "sample_methods =
     [''CreateDatabase'', ''CreateCollection'', ''ReadDocument'', ''ReadDocuments'',
      ''QueryDocuments'', ''ReplaceDocument'']"

definition sample_calls :: "'c sdk \<Rightarrow> config \<Rightarrow> call list" where
  "sample_calls sdk cfg =
     [Call_CreateDatabase (database_definition cfg),
      Call_CreateCollection (database_link cfg) (collection_definition sdk cfg),
      Call_ReadDocument (collection_link cfg @ ''/docs/SalesOrder1'')
        (PDict [(''partitionKey'', PStr ''Account1'')]),
      Call_ReadDocuments (collection_link cfg) (PDict [(''maxItemCount'', PInt 10)]),
      Call_QueryDocuments (collection_link cfg)
        (PDict [(''query'',
           PStr (''SELECT * FROM root r WHERE r.account_number='' @ quote @ ''Account1'' @
             quote))])]"

section \<open>Properties\<close>

lemmas prog_defs = bind_def ret_def raise_def lift_def print_def put_line_def invoke_def
  response_header_def alloc_def load_def store_def try_except_def try_finally_def

subsection \<open>CreateDocuments\<close>

lemma GetSalesOrder_raises: "GetSalesOrder env document_id = Inl (AttributeError ''min'')"
  by (simp add: GetSalesOrder_def bindE_def date_strftime_def min_strftime_def
      datetime_getattr_def datetime_names_def)

text \<open>
  Claim C2 says that \<open>CreateDocuments\<close> builds the two sample records and submits both
  without raising. The code does not: \<open>GetSalesOrder\<close> evaluates \<open>datetime.min\<close>, and
  \<open>datetime\<close> is the module, which has no name \<open>min\<close>. For every client, configuration
  and environment, \<open>CreateDocuments\<close> raises \<open>AttributeError\<close> after its banner, before
  any call on the client: no record is submitted.
\<close>

theorem CreateDocuments_raises:
  "fst (CreateDocuments sdk cfg env w) = Inl (AttributeError ''min'') \<and>
   calls (snd (CreateDocuments sdk cfg env w)) = calls w \<and>
   client (snd (CreateDocuments sdk cfg env w)) = client w"
  by (simp add: CreateDocuments_def GetSalesOrder_raises prog_defs)

subsection \<open>ReadDocuments\<close>





subsection \<open>QueryDocuments\<close>

lemma query_text_str:
  "query_text (PStr a) =
     Inr (''SELECT * FROM root r WHERE r.account_number='' @ quote @ a @ quote)"
  by (simp add: query_text_def bindE_def)

text \<open>
  Claim C1, as amended. For every account number (a string), \<open>QueryDocuments\<close> issues
  one query, whose text is \<open>SELECT * FROM root r WHERE r.account_number='<the string>'\<close>,
  and prints that a document was found whatever the query yields. When the query yields
  at least one record, it returns (a reference to) the first. When the query yields no
  record, it raises \<open>IndexError\<close>: the result is an error, not an empty result.
\<close>

theorem QueryDocuments_first_or_IndexError:
  assumes "c_QueryDocuments sdk (client w) (collection_link cfg)
             (PDict [(''query'', PStr (''SELECT * FROM root r WHERE r.account_number='' @
                quote @ a @ quote))]) = (Inr documentlist, c')"
  shows "calls (snd (QueryDocuments sdk cfg (PStr a) w)) =
           calls w @ [Call_QueryDocuments (collection_link cfg)
             (PDict [(''query'', PStr (''SELECT * FROM root r WHERE r.account_number='' @
                quote @ a @ quote))])] \<and>
         console (snd (QueryDocuments sdk cfg (PStr a) w)) =
           console w @
           [Line (nl @ ''1.4 - Querying for a document using its AccountNumber property'') [],
            Line ''Found document with account_number: {0}'' [Val (PStr a)]] \<and>
         (case documentlist of
            [] \<Rightarrow> fst (QueryDocuments sdk cfg (PStr a) w) = Inl IndexError
          | doc # rest \<Rightarrow>
              fst (QueryDocuments sdk cfg (PStr a) w) = Inr (heap_next w) \<and>
              heap (snd (QueryDocuments sdk cfg (PStr a) w)) (heap_next w) = doc)"
  using assms
  by (simp add: QueryDocuments_def query_text_str prog_defs split: list.split)

lemma seeded_query:
  "c_QueryDocuments mock_sdk (client (world0 seeded_service)) (collection_link cfg0)
     (PDict [(''query'', PStr (''SELECT * FROM root r WHERE r.account_number='' @
        quote @ ''Account1'' @ quote))]) = (Inr [order1], seeded_service)"
  by (simp add: query_text_def bindE_def mock_sdk_def mock_QueryDocuments_def world0_def
      seeded_service_def order1_def cfg0_def collection_link_def database_link_def quote_def
      dict_getitem_def dict_get_def)

theorem QueryDocuments_first_or_IndexError_witness:
  "c_QueryDocuments mock_sdk (client (world0 seeded_service)) (collection_link cfg0)
     (PDict [(''query'', PStr (''SELECT * FROM root r WHERE r.account_number='' @
        quote @ ''Account1'' @ quote))]) = (Inr [order1], seeded_service) \<and>
   fst (QueryDocuments mock_sdk cfg0 (PStr ''Account1'') (world0 seeded_service)) = Inr 0 \<and>
   heap (snd (QueryDocuments mock_sdk cfg0 (PStr ''Account1'') (world0 seeded_service))) 0 =
     order1"
  using QueryDocuments_first_or_IndexError [OF seeded_query] seeded_query
  by (simp add: world0_def)

text \<open>The claim as stated fails: no record of the seeded service has the account number
  \<open>Account9\<close>, the query yields the empty sequence, and \<open>QueryDocuments\<close> raises.\<close>

theorem QueryDocuments_counterexample:
  "c_QueryDocuments mock_sdk (client (world0 seeded_service)) (collection_link cfg0)
     (PDict [(''query'', PStr (''SELECT * FROM root r WHERE r.account_number='' @
        quote @ ''Account9'' @ quote))]) = (Inr [], seeded_service) \<and>
   fst (QueryDocuments mock_sdk cfg0 (PStr ''Account9'') (world0 seeded_service)) =
     Inl IndexError"
  by (simp add: QueryDocuments_def query_text_def bindE_def prog_defs mock_sdk_def
      mock_QueryDocuments_def world0_def seeded_service_def order1_def cfg0_def
      collection_link_def database_link_def quote_def dict_getitem_def dict_get_def)

subsection \<open>ReplaceDocument\<close>

lemma now_strftime_eq: "now_strftime env = Inr (PStr (now_c env))"
  by (simp add: now_strftime_def datetime_getattr_def datetime_names_def)

lemma map_of_dict_setitem: "map_of (dict_setitem d k v) = (map_of d)(k \<mapsto> v)"
  by (induction d) (auto simp: fun_eq_iff)

lemma dict_getitem_setitem_other:
  "k' \<noteq> k \<Longrightarrow> dict_getitem (dict_setitem d k v) k' = dict_getitem d k'"
  by (simp add: dict_getitem_def map_of_dict_setitem)


lemma world_with_order1:
  "heap (world_with seeded_service order1) 0 =
     PDict
       [(''id'', PStr ''SalesOrder1''),
        (''account_number'', PStr ''Account1''),
        (''purchase_order_number'', PStr ''PO18009186470''),
        (''order_date'', PStr ''Mon Jan 10 00:00:00 2005''),
        (''shipped_date'', PStr ''Wed Jan 12 00:00:00 2005''),
        (''ttl'', PInt 2592000)]"
  by (simp add: world_with_def order1_def)

lemma order1_id:
  "dict_getitem
     [(''id'', PStr ''SalesOrder1''),
      (''account_number'', PStr ''Account1''),
      (''purchase_order_number'', PStr ''PO18009186470''),
      (''order_date'', PStr ''Mon Jan 10 00:00:00 2005''),
      (''shipped_date'', PStr ''Wed Jan 12 00:00:00 2005''),
      (''ttl'', PInt 2592000)] ''id'' = Inr (PStr ''SalesOrder1'')"
  by (simp add: dict_getitem_def)

text \<open>
  Claim C6, as amended. For every order record with a string \<open>id\<close>, \<open>ReplaceDocument\<close>
  submits one replacement, addressed by that \<open>id\<close>; the record submitted is the order
  with exactly one field set, \<open>shipped_date\<close>, to the text of the current time, and every
  other field (the \<open>id\<close> among them) as it was. \<open>ReplaceDocument\<close> returns no record:
  when it returns, its value is \<open>None\<close> (the record the client returns is only printed
  from). Nothing makes the new \<open>shipped_date\<close> differ from the original one.
\<close>

theorem ReplaceDocument_sets_shipped_date:
  assumes "heap w order = PDict d" and "dict_getitem d ''id'' = Inr (PStr i)"
  shows "calls (snd (ReplaceDocument sdk cfg env order w)) =
           calls w @ [Call_ReplaceDocument (collection_link cfg @ ''/docs/'' @ i)
             (PDict (dict_setitem d ''shipped_date'' (PStr (now_c env))))] \<and>
         map_of (dict_setitem d ''shipped_date'' (PStr (now_c env))) =
           (map_of d)(''shipped_date'' \<mapsto> PStr (now_c env)) \<and>
         dict_getitem (dict_setitem d ''shipped_date'' (PStr (now_c env))) ''id'' =
           Inr (PStr i) \<and>
         (case fst (ReplaceDocument sdk cfg env order w) of
            Inl e \<Rightarrow> True
          | Inr v \<Rightarrow> v = PNone)"
  using assms
  by (auto simp: ReplaceDocument_def now_strftime_eq prog_defs dict_getitem_setitem_other
      map_of_dict_setitem split: sum.splits prod.splits)

theorem ReplaceDocument_sets_shipped_date_witness:
  "heap (world_with seeded_service order1) 0 = order1 \<and>
   py_getitem order1 ''id'' = Inr (PStr ''SalesOrder1'') \<and>
   calls (snd (ReplaceDocument mock_sdk cfg0 env0 0 (world_with seeded_service order1))) =
     [Call_ReplaceDocument ''dbs/db/colls/coll/docs/SalesOrder1'' order_now] \<and>
   fst (ReplaceDocument mock_sdk cfg0 env0 0 (world_with seeded_service order1)) = Inr PNone"
proof -
  have "fst (ReplaceDocument mock_sdk cfg0 env0 0 (world_with seeded_service order1)) =
          Inr PNone"
    by (simp add: ReplaceDocument_def now_strftime_eq prog_defs world_with_def
        seeded_service_def order1_def mock_sdk_def mock_ReplaceDocument_def cfg0_def env0_def
        collection_link_def database_link_def dict_getitem_def dict_get_def)
  then show ?thesis
    using ReplaceDocument_sets_shipped_date
      [OF world_with_order1 order1_id, of mock_sdk cfg0 env0]
    by (simp add: world_with_def order1_def order_now_def env0_def cfg0_def
        collection_link_def database_link_def dict_getitem_def)
qed

text \<open>The claim as stated fails: the order below was shipped at the very time the clock
  reads (the text has a resolution of one second), so the record submitted, and stored,
  has the \<open>shipped_date\<close> the input had; and the value returned is \<open>None\<close>, not a
  record.\<close>

theorem ReplaceDocument_counterexample:
  "heap (world_with service_now order_now) 0 = order_now \<and>
   fst (ReplaceDocument mock_sdk cfg0 env0 0 (world_with service_now order_now)) = Inr PNone \<and>
   calls (snd (ReplaceDocument mock_sdk cfg0 env0 0 (world_with service_now order_now))) =
     [Call_ReplaceDocument ''dbs/db/colls/coll/docs/SalesOrder1'' order_now] \<and>
   heap (snd (ReplaceDocument mock_sdk cfg0 env0 0 (world_with service_now order_now))) 0 =
     order_now"
  by (simp add: ReplaceDocument_def now_strftime_eq prog_defs world_with_def service_now_def
      order_now_def mock_sdk_def mock_ReplaceDocument_def cfg0_def env0_def collection_link_def
      database_link_def dict_getitem_def dict_get_def)



subsection \<open>Errors of the client\<close>

lemma Initialize_database_error:
  assumes "is_DocumentDBError e" and "status_code e = Some s" and "s \<noteq> 409"
    and "c_CreateDatabase sdk (client w) (database_definition cfg) = (Inl e, c1)"
  shows "fst (Initialize sdk cfg w) = Inl (HTTPFailure s [])"
  using assms by (simp add: Initialize_def except_DocumentDBError_def prog_defs)

lemma Initialize_collection_error:
  assumes "is_DocumentDBError e" and "status_code e = Some s" and "s \<noteq> 409"
    and "is_DocumentDBError k" and "status_code k = Some 409"
    and "c_CreateDatabase sdk (client w) (database_definition cfg) = (r1, c1)"
    and "r1 = Inl k \<or> r1 = Inr v"
    and "c_CreateCollection sdk c1 (database_link cfg) (collection_definition sdk cfg) =
           (Inl e, c2)"
  shows "fst (Initialize sdk cfg w) = Inl (HTTPFailure s [])"
  using assms by (auto simp: Initialize_def except_DocumentDBError_def prog_defs)

lemma Initialize_conflicts:
  assumes "is_DocumentDBError k" and "status_code k = Some 409"
    and "c_CreateDatabase sdk (client w) (database_definition cfg) = (r1, c1)"
    and "r1 = Inl k \<or> r1 = Inr v"
    and "c_CreateCollection sdk c1 (database_link cfg) (collection_definition sdk cfg) =
           (r2, c2)"
    and "r2 = Inl k \<or> r2 = Inr v'"
  shows "fst (Initialize sdk cfg w) = Inr ()"
  using assms by (auto simp: Initialize_def except_DocumentDBError_def prog_defs)

lemma ReadDocument_error:
  assumes "c_ReadDocument sdk (client w) (collection_link cfg @ ''/docs/'' @ i)
             (PDict [(''partitionKey'', a)]) = (Inl e, c1)"
  shows "fst (ReadDocument sdk cfg (PStr i) a w) = Inl e"
  using assms by (simp add: ReadDocument_def prog_defs)

lemma ReadDocuments_error:
  assumes "c_ReadDocuments sdk (client w) (collection_link cfg)
             (PDict [(''maxItemCount'', PInt 10)]) = (Inl e, c1)"
  shows "fst (ReadDocuments sdk cfg w) = Inl e"
  using assms by (simp add: ReadDocuments_def prog_defs)

lemma QueryDocuments_error:
  assumes "c_QueryDocuments sdk (client w) (collection_link cfg)
             (PDict [(''query'', PStr (''SELECT * FROM root r WHERE r.account_number='' @
                quote @ a @ quote))]) = (Inl e, c1)"
  shows "fst (QueryDocuments sdk cfg (PStr a) w) = Inl e"
  using assms by (simp add: QueryDocuments_def query_text_str prog_defs)

lemma ReplaceDocument_error:
  assumes "heap w order = PDict d" and "dict_getitem d ''id'' = Inr (PStr i)"
    and "c_ReplaceDocument sdk (client w) (collection_link cfg @ ''/docs/'' @ i)
           (PDict (dict_setitem d ''shipped_date'' (PStr (now_c env)))) = (Inl e, c1)"
  shows "fst (ReplaceDocument sdk cfg env order w) = Inl e"
  using assms
  by (simp add: ReplaceDocument_def now_strftime_eq prog_defs dict_getitem_setitem_other)

lemma service_error_is_HTTPFailure:
  "is_DocumentDBError e \<Longrightarrow> status_code e = Some s \<Longrightarrow> is_HTTPFailure e"
  by (cases e) simp_all

text \<open>
  Claim C5. Let \<open>e\<close> be a service error with a status code \<open>s\<close>, and \<open>k\<close> a service
  error with status code 409. Only an \<open>HTTPFailure\<close> has a status code, so \<open>e\<close> is the
  generic failure itself.
  \<^item> Setup, \<open>s\<close> other than 409: when \<open>CreateDatabase\<close> raises \<open>e\<close>, or when it returns
    or raises \<open>k\<close> and \<open>CreateCollection\<close> then raises \<open>e\<close>, \<open>Initialize\<close> raises
    \<open>HTTPFailure\<close> with the status code \<open>s\<close>.
  \<^item> Setup, 409: a \<open>k\<close> of either setup call is passed over; when each call returns or
    raises \<open>k\<close>, \<open>Initialize\<close> returns normally.
  \<^item> Every other external call (\<open>ReadDocument\<close>, \<open>ReadDocuments\<close>, \<open>QueryDocuments\<close>,
    \<open>ReplaceDocument\<close>), whatever \<open>s\<close> is: the operation has no handler, and \<open>e\<close>
    reaches its caller as it was raised, an \<open>HTTPFailure\<close> with the status code \<open>s\<close>.
\<close>

theorem service_errors_reach_the_caller:
  assumes "is_DocumentDBError e" and "status_code e = Some s"
    and "is_DocumentDBError k" and "status_code k = Some 409"
  shows
    "is_HTTPFailure e \<and>
     (s \<noteq> 409 \<and> c_CreateDatabase sdk (client w) (database_definition cfg) = (Inl e, c1) \<longrightarrow>
        fst (Initialize sdk cfg w) = Inl (HTTPFailure s [])) \<and>
     (s \<noteq> 409 \<and> c_CreateDatabase sdk (client w) (database_definition cfg) = (r1, c1) \<and>
      (r1 = Inl k \<or> r1 = Inr v) \<and>
      c_CreateCollection sdk c1 (database_link cfg) (collection_definition sdk cfg) =
        (Inl e, c2) \<longrightarrow>
        fst (Initialize sdk cfg w) = Inl (HTTPFailure s [])) \<and>
     (c_CreateDatabase sdk (client w) (database_definition cfg) = (r1, c1) \<and>
      (r1 = Inl k \<or> r1 = Inr v) \<and>
      c_CreateCollection sdk c1 (database_link cfg) (collection_definition sdk cfg) =
        (r2, c2) \<and>
      (r2 = Inl k \<or> r2 = Inr v') \<longrightarrow>
        fst (Initialize sdk cfg w) = Inr ()) \<and>
     (c_ReadDocument sdk (client w) (collection_link cfg @ ''/docs/'' @ i)
        (PDict [(''partitionKey'', a)]) = (Inl e, c1) \<longrightarrow>
        fst (ReadDocument sdk cfg (PStr i) a w) = Inl e) \<and>
     (c_ReadDocuments sdk (client w) (collection_link cfg)
        (PDict [(''maxItemCount'', PInt 10)]) = (Inl e, c1) \<longrightarrow>
        fst (ReadDocuments sdk cfg w) = Inl e) \<and>
     (c_QueryDocuments sdk (client w) (collection_link cfg)
        (PDict [(''query'', PStr (''SELECT * FROM root r WHERE r.account_number='' @
           quote @ n @ quote))]) = (Inl e, c1) \<longrightarrow>
        fst (QueryDocuments sdk cfg (PStr n) w) = Inl e) \<and>
     (heap w order = PDict d \<and> dict_getitem d ''id'' = Inr (PStr i) \<and>
      c_ReplaceDocument sdk (client w) (collection_link cfg @ ''/docs/'' @ i)
        (PDict (dict_setitem d ''shipped_date'' (PStr (now_c env)))) = (Inl e, c1) \<longrightarrow>
        fst (ReplaceDocument sdk cfg env order w) = Inl e)"
proof (intro conjI impI)
  show "is_HTTPFailure e"
    using assms(1,2) by (rule service_error_is_HTTPFailure)
  show "fst (Initialize sdk cfg w) = Inl (HTTPFailure s [])"
    if "s \<noteq> 409 \<and> c_CreateDatabase sdk (client w) (database_definition cfg) = (Inl e, c1)"
    using that assms(1,2) Initialize_database_error [of e s sdk w cfg c1] by blast
  show "fst (Initialize sdk cfg w) = Inl (HTTPFailure s [])"
    if "s \<noteq> 409 \<and> c_CreateDatabase sdk (client w) (database_definition cfg) = (r1, c1) \<and>
        (r1 = Inl k \<or> r1 = Inr v) \<and>
        c_CreateCollection sdk c1 (database_link cfg) (collection_definition sdk cfg) =
          (Inl e, c2)"
    using that assms Initialize_collection_error [of e s k sdk w cfg r1 c1 v c2] by blast
  show "fst (Initialize sdk cfg w) = Inr ()"
    if "c_CreateDatabase sdk (client w) (database_definition cfg) = (r1, c1) \<and>
        (r1 = Inl k \<or> r1 = Inr v) \<and>
        c_CreateCollection sdk c1 (database_link cfg) (collection_definition sdk cfg) =
          (r2, c2) \<and>
        (r2 = Inl k \<or> r2 = Inr v')"
    using that assms Initialize_conflicts [of k sdk w cfg r1 c1 v r2 c2 v'] by blast
  show "fst (ReadDocument sdk cfg (PStr i) a w) = Inl e"
    if "c_ReadDocument sdk (client w) (collection_link cfg @ ''/docs/'' @ i)
          (PDict [(''partitionKey'', a)]) = (Inl e, c1)"
    using that by (rule ReadDocument_error)
  show "fst (ReadDocuments sdk cfg w) = Inl e"
    if "c_ReadDocuments sdk (client w) (collection_link cfg)
          (PDict [(''maxItemCount'', PInt 10)]) = (Inl e, c1)"
    using that by (rule ReadDocuments_error)
  show "fst (QueryDocuments sdk cfg (PStr n) w) = Inl e"
    if "c_QueryDocuments sdk (client w) (collection_link cfg)
          (PDict [(''query'', PStr (''SELECT * FROM root r WHERE r.account_number='' @
             quote @ n @ quote))]) = (Inl e, c1)"
    using that by (rule QueryDocuments_error)
  show "fst (ReplaceDocument sdk cfg env order w) = Inl e"
    if "heap w order = PDict d \<and> dict_getitem d ''id'' = Inr (PStr i) \<and>
        c_ReplaceDocument sdk (client w) (collection_link cfg @ ''/docs/'' @ i)
          (PDict (dict_setitem d ''shipped_date'' (PStr (now_c env)))) = (Inl e, c1)"
    using that ReplaceDocument_error [of w order d i sdk cfg env e c1] by blast
qed

lemmas stub_defs = stub_sdk_def failing_sdk_def world0_def cfg0_def
  collection_link_def database_link_def

theorem service_errors_reach_the_caller_witness:
  "is_DocumentDBError (HTTPFailure 500 ''boom'') \<and>
   status_code (HTTPFailure 500 ''boom'') = Some 500 \<and>
   is_DocumentDBError (HTTPFailure 409 ''Conflict'') \<and>
   status_code (HTTPFailure 409 ''Conflict'') = Some 409 \<and>
   fst (Initialize (failing_sdk (HTTPFailure 500 ''boom'')) cfg0 (world0 ())) =
     Inl (HTTPFailure 500 []) \<and>
   fst (Initialize
          (stub_sdk (\<lambda>m. if m = ''CreateDatabase'' then Some (HTTPFailure 409 ''Conflict'')
                         else if m = ''CreateCollection''
                         then Some (HTTPFailure 500 ''boom'') else None))
          cfg0 (world0 ())) = Inl (HTTPFailure 500 []) \<and>
   fst (Initialize (failing_sdk (HTTPFailure 409 ''Conflict'')) cfg0 (world0 ())) = Inr () \<and>
   fst (ReadDocument (failing_sdk (HTTPFailure 500 ''boom'')) cfg0 (PStr ''SalesOrder1'')
          (PStr ''Account1'') (world0 ())) = Inl (HTTPFailure 500 ''boom'') \<and>
   fst (ReadDocuments (failing_sdk (HTTPFailure 500 ''boom'')) cfg0 (world0 ())) =
     Inl (HTTPFailure 500 ''boom'') \<and>
   fst (QueryDocuments (failing_sdk (HTTPFailure 500 ''boom'')) cfg0 (PStr ''Account1'')
          (world0 ())) = Inl (HTTPFailure 500 ''boom'') \<and>
   fst (ReplaceDocument (failing_sdk (HTTPFailure 409 ''Conflict'')) cfg0 env0 0
          (world_with () order1)) = Inl (HTTPFailure 409 ''Conflict'')"
proof -
  have e: "is_DocumentDBError (HTTPFailure 500 ''boom'')"
    "status_code (HTTPFailure 500 ''boom'') = Some 500"
    and k: "is_DocumentDBError (HTTPFailure 409 ''Conflict'')"
    "status_code (HTTPFailure 409 ''Conflict'') = Some 409"
    by simp_all
  note T = service_errors_reach_the_caller [OF e k]
  note K = service_errors_reach_the_caller [OF k k]
  have 1: "fst (Initialize (failing_sdk (HTTPFailure 500 ''boom'')) cfg0 (world0 ())) =
             Inl (HTTPFailure 500 [])"
    using T [where sdk = "failing_sdk (HTTPFailure 500 ''boom'')" and w = "world0 ()"
        and cfg = cfg0 and ?c1.0 = "()"]
    by (simp add: stub_defs)
  have 2: "fst (Initialize
          (stub_sdk (\<lambda>m. if m = ''CreateDatabase'' then Some (HTTPFailure 409 ''Conflict'')
                         else if m = ''CreateCollection''
                         then Some (HTTPFailure 500 ''boom'') else None))
          cfg0 (world0 ())) = Inl (HTTPFailure 500 [])"
    using T [where sdk = "stub_sdk (\<lambda>m. if m = ''CreateDatabase''
          then Some (HTTPFailure 409 ''Conflict'')
          else if m = ''CreateCollection'' then Some (HTTPFailure 500 ''boom'') else None)"
        and w = "world0 ()" and cfg = cfg0 and ?c1.0 = "()" and ?c2.0 = "()"
        and ?r1.0 = "Inl (HTTPFailure 409 ''Conflict'')"]
    by (simp add: stub_defs)
  have 3: "fst (Initialize (failing_sdk (HTTPFailure 409 ''Conflict'')) cfg0 (world0 ())) =
             Inr ()"
    using T [where sdk = "failing_sdk (HTTPFailure 409 ''Conflict'')" and w = "world0 ()"
        and cfg = cfg0 and ?c1.0 = "()" and ?c2.0 = "()"
        and ?r1.0 = "Inl (HTTPFailure 409 ''Conflict'')"
        and ?r2.0 = "Inl (HTTPFailure 409 ''Conflict'')"]
    by (simp add: stub_defs)
  have 4: "fst (ReadDocument (failing_sdk (HTTPFailure 500 ''boom'')) cfg0
             (PStr ''SalesOrder1'') (PStr ''Account1'') (world0 ())) =
             Inl (HTTPFailure 500 ''boom'') \<and>
           fst (ReadDocuments (failing_sdk (HTTPFailure 500 ''boom'')) cfg0 (world0 ())) =
             Inl (HTTPFailure 500 ''boom'') \<and>
           fst (QueryDocuments (failing_sdk (HTTPFailure 500 ''boom'')) cfg0
             (PStr ''Account1'') (world0 ())) = Inl (HTTPFailure 500 ''boom'')"
    using T [where sdk = "failing_sdk (HTTPFailure 500 ''boom'')" and w = "world0 ()"
        and cfg = cfg0 and ?c1.0 = "()" and i = "''SalesOrder1''" and a = "PStr ''Account1''"
        and n = "''Account1''"]
    by (simp add: stub_defs)
  have 5: "fst (ReplaceDocument (failing_sdk (HTTPFailure 409 ''Conflict'')) cfg0 env0 0
             (world_with () order1)) = Inl (HTTPFailure 409 ''Conflict'')"
    using K [where sdk = "failing_sdk (HTTPFailure 409 ''Conflict'')"
        and w = "world_with () order1" and cfg = cfg0 and ?c1.0 = "()" and env = env0
        and order = 0 and i = "''SalesOrder1''"
        and d = "[(''id'', PStr ''SalesOrder1''),
          (''account_number'', PStr ''Account1''),
          (''purchase_order_number'', PStr ''PO18009186470''),
          (''order_date'', PStr ''Mon Jan 10 00:00:00 2005''),
          (''shipped_date'', PStr ''Wed Jan 12 00:00:00 2005''),
          (''ttl'', PInt 2592000)]"]
    by (simp add: stub_defs world_with_def order1_def dict_getitem_def)
  from 1 2 3 4 5 show ?thesis by simp
qed

subsection \<open>The top level\<close>

text \<open>
  Claim C7, as amended. For every exception that goes out of \<open>run_sample\<close>: when it is
  an instance of \<open>Exception\<close>, the \<open>__main__\<close> block catches it, prints its \<open>args\<close>
  and ends normally, in the world \<open>run_sample\<close> left but for that line; when it is not
  (\<open>KeyboardInterrupt\<close>, \<open>SystemExit\<close>), the block does not catch it: it goes out of
  the program as it is, and nothing is printed for it.
\<close>

theorem main_catches_Exception:
  assumes "run_sample sdk cfg env w = (Inl e, w')"
  shows "main sdk cfg env w =
           (if is_Exception e
            then (Inr (),
                  put_line (Line ''Top level Error: args:{0}, message:N/A'' [Args e]) w')
            else (Inl e, w'))"
  using assms by (simp add: main_def except_Exception_def prog_defs)

lemma run_sample_stub:
  "fst (run_sample (stub_sdk (\<lambda>m. None)) cfg0 env0 (world0 ())) = Inl IndexError"
  by (simp add: run_sample_def with_IDisposable_def IDisposable_exit_def run_sample_body_def
      Initialize_def ReadDocument_def ReadDocuments_def QueryDocuments_def
      except_DocumentDBError_def except_HTTPFailure_def query_text_def bindE_def
      prog_defs stub_defs)

lemma run_sample_exit:
  "fst (run_sample (failing_sdk SystemExit) cfg0 env0 (world0 ())) = Inl SystemExit"
  by (simp add: run_sample_def with_IDisposable_def IDisposable_exit_def run_sample_body_def
      Initialize_def except_DocumentDBError_def except_HTTPFailure_def prog_defs stub_defs)

theorem main_catches_Exception_witness:
  "fst (run_sample (stub_sdk (\<lambda>m. None)) cfg0 env0 (world0 ())) = Inl IndexError \<and>
   is_Exception IndexError \<and>
   fst (main (stub_sdk (\<lambda>m. None)) cfg0 env0 (world0 ())) = Inr () \<and>
   last (console (snd (main (stub_sdk (\<lambda>m. None)) cfg0 env0 (world0 ())))) =
     Line ''Top level Error: args:{0}, message:N/A'' [Args IndexError] \<and>
   fst (run_sample (failing_sdk SystemExit) cfg0 env0 (world0 ())) = Inl SystemExit \<and>
   \<not> is_Exception SystemExit \<and>
   main (failing_sdk SystemExit) cfg0 env0 (world0 ()) =
     run_sample (failing_sdk SystemExit) cfg0 env0 (world0 ())"
proof -
  have h: "run_sample (stub_sdk (\<lambda>m. None)) cfg0 env0 (world0 ()) =
           (Inl IndexError, snd (run_sample (stub_sdk (\<lambda>m. None)) cfg0 env0 (world0 ())))"
    using run_sample_stub by (simp add: prod_eq_iff)
  have x: "run_sample (failing_sdk SystemExit) cfg0 env0 (world0 ()) =
           (Inl SystemExit, snd (run_sample (failing_sdk SystemExit) cfg0 env0 (world0 ())))"
    using run_sample_exit by (simp add: prod_eq_iff)
  have "main (failing_sdk SystemExit) cfg0 env0 (world0 ()) =
          run_sample (failing_sdk SystemExit) cfg0 env0 (world0 ())"
    using main_catches_Exception [OF x] x by simp
  then show ?thesis
    using main_catches_Exception [OF h] run_sample_stub run_sample_exit
    by (simp add: put_line_def)
qed

text \<open>The claim as stated fails: a \<open>KeyboardInterrupt\<close> raised inside a call on the client
  (the user interrupts the run) goes out of \<open>run_sample\<close> and out of the \<open>__main__\<close>
  block; no \<open>Top level Error\<close> line is printed.\<close>

theorem main_counterexample:
  "fst (run_sample (failing_sdk KeyboardInterrupt) cfg0 env0 (world0 ())) =
     Inl KeyboardInterrupt \<and>
   fst (main (failing_sdk KeyboardInterrupt) cfg0 env0 (world0 ())) = Inl KeyboardInterrupt \<and>
   console (snd (main (failing_sdk KeyboardInterrupt) cfg0 env0 (world0 ()))) =
     [Line ''Initializing database for samples'' [], Line (nl @ ''run_sample done'') []]"
  by (simp add: main_def except_Exception_def run_sample_def with_IDisposable_def
      IDisposable_exit_def run_sample_body_def Initialize_def except_DocumentDBError_def
      except_HTTPFailure_def prog_defs stub_defs)

subsection \<open>Initialize\<close>

lemma database_definition_id:
  "py_getitem (database_definition cfg) ''id'' = Inr (PStr (DATABASE_ID cfg))"
  by (simp add: database_definition_def dict_getitem_def)

lemma collection_definition_id:
  "py_getitem (collection_definition sdk cfg) ''id'' = Inr (PStr (COLLECTION_ID cfg))"
  by (simp add: collection_definition_def dict_getitem_def)

text \<open>How \<open>Initialize\<close> ends, from the outcomes of its two calls, when neither raises
  anything but a conflict.\<close>

lemma Initialize_steps:
  assumes db: "c_CreateDatabase sdk (client w) (database_definition cfg) = (r1, c1)"
    and r1: "(\<exists>e. r1 = Inl e \<and> is_DocumentDBError e \<and> status_code e = Some 409) \<or>
             (\<exists>v. r1 = Inr v)"
    and coll: "c_CreateCollection sdk c1 (database_link cfg) (collection_definition sdk cfg) =
             (r2, c2)"
    and r2: "(\<exists>e. r2 = Inl e \<and> is_DocumentDBError e \<and> status_code e = Some 409) \<or>
             (\<exists>v. r2 = Inr v)"
  shows "fst (Initialize sdk cfg w) = Inr () \<and> client (snd (Initialize sdk cfg w)) = c2"
  using assms by (auto simp: Initialize_def except_DocumentDBError_def prog_defs)

lemma Initialize_once:
  assumes contract: "reports_conflicts sdk databases collections"
  shows "fst (Initialize sdk cfg w) = Inr () \<and>
         databases (client (snd (Initialize sdk cfg w))) =
           insert (DATABASE_ID cfg) (databases (client w)) \<and>
         collections (client (snd (Initialize sdk cfg w))) =
           insert (database_link cfg, COLLECTION_ID cfg) (collections (client w))"
proof -
  obtain r1 c1 where db: "c_CreateDatabase sdk (client w) (database_definition cfg) = (r1, c1)"
    by (cases "c_CreateDatabase sdk (client w) (database_definition cfg)")
  obtain r2 c2 where
    coll: "c_CreateCollection sdk c1 (database_link cfg) (collection_definition sdk cfg) =
             (r2, c2)"
    by (cases "c_CreateCollection sdk c1 (database_link cfg) (collection_definition sdk cfg)")
  from contract db database_definition_id [of cfg]
  have step1: "collections c1 = collections (client w) \<and>
      (if DATABASE_ID cfg \<in> databases (client w)
       then (\<exists>e. r1 = Inl e \<and> is_DocumentDBError e \<and> status_code e = Some 409) \<and>
            databases c1 = databases (client w)
       else (\<exists>v. r1 = Inr v) \<and> databases c1 = insert (DATABASE_ID cfg) (databases (client w)))"
    unfolding reports_conflicts_def by blast
  then have dbs1: "databases c1 = insert (DATABASE_ID cfg) (databases (client w))"
    and colls1: "collections c1 = collections (client w)"
    and r1: "(\<exists>e. r1 = Inl e \<and> is_DocumentDBError e \<and> status_code e = Some 409) \<or>
             (\<exists>v. r1 = Inr v)"
    by (auto split: if_splits)
  have link: "database_link cfg \<in> (\<lambda>db. ''dbs/'' @ db) ` databases c1"
    by (simp add: dbs1 database_link_def)
  from contract coll collection_definition_id [of sdk cfg] link
  have step2: "databases c2 = databases c1 \<and>
      (if (database_link cfg, COLLECTION_ID cfg) \<in> collections c1
       then (\<exists>e. r2 = Inl e \<and> is_DocumentDBError e \<and> status_code e = Some 409) \<and>
            collections c2 = collections c1
       else (\<exists>v. r2 = Inr v) \<and>
            collections c2 = insert (database_link cfg, COLLECTION_ID cfg) (collections c1))"
    unfolding reports_conflicts_def by blast
  then have dbs2: "databases c2 = databases c1"
    and colls2: "collections c2 = insert (database_link cfg, COLLECTION_ID cfg) (collections c1)"
    and r2: "(\<exists>e. r2 = Inl e \<and> is_DocumentDBError e \<and> status_code e = Some 409) \<or>
             (\<exists>v. r2 = Inr v)"
    by (auto split: if_splits)
  from Initialize_steps [OF db r1 coll r2] dbs1 colls1 dbs2 colls2
  show ?thesis by simp
qed

text \<open>
  Claim C4. For every client that reports conflicts (\<open>reports_conflicts\<close>: creating a
  database or a collection that exists raises a service error with status code 409),
  from any state of the service: both of two calls of \<open>Initialize\<close> in sequence return
  normally; the second creates nothing (the databases and collections after the second
  call are those after the first); what exists afterwards is what existed before and the
  one database and the one collection of the configuration. From a service that holds
  nothing, exactly one database and one collection exist afterwards.
\<close>

theorem Initialize_twice:
  assumes "reports_conflicts sdk databases collections"
  shows "fst (Initialize sdk cfg w) = Inr () \<and>
         fst (Initialize sdk cfg (snd (Initialize sdk cfg w))) = Inr () \<and>
         databases (client (snd (Initialize sdk cfg (snd (Initialize sdk cfg w))))) =
           databases (client (snd (Initialize sdk cfg w))) \<and>
         collections (client (snd (Initialize sdk cfg (snd (Initialize sdk cfg w))))) =
           collections (client (snd (Initialize sdk cfg w))) \<and>
         databases (client (snd (Initialize sdk cfg (snd (Initialize sdk cfg w))))) =
           insert (DATABASE_ID cfg) (databases (client w)) \<and>
         collections (client (snd (Initialize sdk cfg (snd (Initialize sdk cfg w))))) =
           insert (database_link cfg, COLLECTION_ID cfg) (collections (client w)) \<and>
         (databases (client w) = {} \<and> collections (client w) = {} \<longrightarrow>
            card (databases (client (snd (Initialize sdk cfg (snd (Initialize sdk cfg w)))))) = 1 \<and>
            card (collections (client (snd (Initialize sdk cfg (snd (Initialize sdk cfg w))))))
              = 1)"
proof -
  note first = Initialize_once [OF assms, of cfg w]
  note second = Initialize_once [OF assms, of cfg "snd (Initialize sdk cfg w)"]
  from first second show ?thesis by simp
qed

lemma mock_reports_conflicts:
  "reports_conflicts mock_sdk (\<lambda>s. set (dbs s)) (\<lambda>s. set (colls s))"
  unfolding reports_conflicts_def
  by (auto simp: mock_sdk_def mock_CreateDatabase_def mock_CreateCollection_def
      split: if_splits)

theorem Initialize_twice_witness:
  "fst (Initialize mock_sdk cfg0 (world0 empty_service)) = Inr () \<and>
   fst (Initialize mock_sdk cfg0 (snd (Initialize mock_sdk cfg0 (world0 empty_service)))) =
     Inr () \<and>
   set (dbs (client (snd (Initialize mock_sdk cfg0
     (snd (Initialize mock_sdk cfg0 (world0 empty_service))))))) = {''db''} \<and>
   set (colls (client (snd (Initialize mock_sdk cfg0
     (snd (Initialize mock_sdk cfg0 (world0 empty_service))))))) = {(''dbs/db'', ''coll'')}"
proof -
  note T = Initialize_twice [OF mock_reports_conflicts, of cfg0 "world0 empty_service"]
  have start: "set (dbs (client (world0 empty_service))) = {}"
    "set (colls (client (world0 empty_service))) = {}"
    by (simp_all add: world0_def empty_service_def)
  have names: "DATABASE_ID cfg0 = ''db''" "(database_link cfg0, COLLECTION_ID cfg0) =
    (''dbs/db'', ''coll'')"
    by (simp_all add: cfg0_def database_link_def)
  from T have "set (dbs (client (snd (Initialize mock_sdk cfg0
      (snd (Initialize mock_sdk cfg0 (world0 empty_service))))))) =
      insert (DATABASE_ID cfg0) (set (dbs (client (world0 empty_service))))"
    and "set (colls (client (snd (Initialize mock_sdk cfg0
      (snd (Initialize mock_sdk cfg0 (world0 empty_service))))))) =
      insert (database_link cfg0, COLLECTION_ID cfg0)
        (set (colls (client (world0 empty_service))))"
    and "fst (Initialize mock_sdk cfg0 (world0 empty_service)) = Inr ()"
    and "fst (Initialize mock_sdk cfg0 (snd (Initialize mock_sdk cfg0 (world0 empty_service))))
      = Inr ()"
    by blast+
  then show ?thesis
    unfolding start names by simp
qed

subsection \<open>The call sequence of run_sample\<close>

lemma operations_append [simp]: "operations (xs @ ys) = operations xs @ operations ys"
  by (simp add: operations_def)

lemma operations_Nil [simp]: "operations [] = []"
  by (simp add: operations_def)

lemma operations_Cons [simp]: "operations (l # ls) = operation_of l @ operations ls"
  by (simp add: operations_def)

lemma ran_trans:
  "ran w w1 ops1 cs1 \<Longrightarrow> ran w1 w2 ops2 cs2 \<Longrightarrow> ran w w2 (ops1 @ ops2) (cs1 @ cs2)"
  by (simp add: ran_def)

lemma bind_elim:
  assumes "bind m f w = (r, w')"
  obtains e where "m w = (Inl e, w')" and "r = Inl e"
  | x w1 where "m w = (Inr x, w1)" and "f x w1 = (r, w')"
  using assms by (auto simp: bind_def split: prod.splits sum.splits)

lemma banner_facts:
  "operation_of (Line ''Initializing database for samples'' args) = [''Initialize'']"
  "operation_of (Line (nl @ ''1.2 - Reading Document by Id'' @ nl) args) = [''ReadDocument'']"
  "operation_of (Line (nl @ ''1.3 - Reading all documents in a collection'' @ nl) args) =
     [''ReadDocuments'']"
  "operation_of (Line (nl @ ''1.4 - Querying for a document using its AccountNumber property'')
     args) = [''QueryDocuments'']"
  "operation_of (Line (nl @ ''1.5 - Replacing a document using its Id'') args) =
     [''ReplaceDocument'']"
  "operation_of (Line ''Database with id '{0}' created'' args) = []"
  "operation_of (Line ''Collection with id '{0}' created'' args) = []"
  "operation_of (Line ''Collection with id '{0}' was found'' args) = []"
  "operation_of (Line ''Document read by Id {0}'' args) = []"
  "operation_of (Line ''Request Units Charge for reading a Document by Id {0}'' args) = []"
  "operation_of (Line ''Document Id: {0}'' args) = []"
  "operation_of (Line ''Found document with account_number: {0}'' args) = []"
  "operation_of (Line ''Request charge of replace operation: {0}'' args) = []"
  "operation_of (Line ''Shipped date of updated document: {0}'' args) = []"
  "operation_of (Line (nl @ ''run_sample has caught an error. {0}'') args) = []"
  "operation_of (Line (nl @ ''run_sample done'') args) = []"
  by (simp_all add: operation_banners_def nl_def)

lemmas banner_simps = banner_facts [unfolded nl_def, simplified]

lemmas step_defs = ret_def raise_def lift_def print_def put_line_def invoke_def
  response_header_def alloc_def load_def store_def

lemma try_except_elim:
  assumes "try_except m h w = (r, w')"
  obtains x where "m w = (Inr x, w')" and "r = Inr x"
  | e w1 where "m w = (Inl e, w1)" and "h e w1 = (r, w')"
  using assms by (auto simp: try_except_def split: prod.splits sum.splits)

lemma except_DocumentDBError_cases:
  assumes "except_DocumentDBError on_conflict e w = (r, w')"
  shows "on_conflict w = (r, w') \<or> (w' = w \<and> (\<exists>x. r = Inl x))"
  using assms
  by (auto simp: except_DocumentDBError_def raise_def split: if_splits option.splits)

lemma Initialize_ran:
  assumes "Initialize sdk cfg w = (r, w')"
  shows "\<exists>cs. ran w w' [''Initialize''] cs \<and>
           (cs = [Call_CreateDatabase (database_definition cfg)] \<and> (\<exists>e. r = Inl e) \<or>
            cs = [Call_CreateDatabase (database_definition cfg),
                  Call_CreateCollection (database_link cfg) (collection_definition sdk cfg)])"
  using assms unfolding Initialize_def
  by (auto elim!: bind_elim try_except_elim dest!: except_DocumentDBError_cases
      simp: step_defs ran_def nl_def banner_simps split: prod.splits)

lemma ReadDocument_ran:
  assumes "ReadDocument sdk cfg (PStr i) a w = (r, w')"
  shows "ran w w' [''ReadDocument'']
           [Call_ReadDocument (collection_link cfg @ ''/docs/'' @ i)
              (PDict [(''partitionKey'', a)])]"
  using assms unfolding ReadDocument_def
  by (auto elim!: bind_elim simp: step_defs ran_def nl_def banner_simps split: prod.splits)

lemma print_ids_ran: "print_ids documentlist w = (r, w') \<Longrightarrow> ran w w' [] []"
proof (induction documentlist arbitrary: w)
  case Nil
  then show ?case by (simp add: ran_def ret_def)
next
  case (Cons doc documentlist)
  from Cons.prems show ?case
    by (auto elim!: bind_elim simp: step_defs ran_def nl_def banner_simps dest!: Cons.IH)
qed

lemma ReadDocuments_ran:
  assumes "ReadDocuments sdk cfg w = (r, w')"
  shows "ran w w' [''ReadDocuments'']
           [Call_ReadDocuments (collection_link cfg) (PDict [(''maxItemCount'', PInt 10)])]"
  using assms unfolding ReadDocuments_def
  by (auto elim!: bind_elim simp: step_defs ran_def nl_def banner_simps split: prod.splits
      dest!: print_ids_ran)

lemma QueryDocuments_ran:
  assumes "QueryDocuments sdk cfg (PStr a) w = (r, w')"
  shows "ran w w' [''QueryDocuments'']
           [Call_QueryDocuments (collection_link cfg)
              (PDict [(''query'', PStr (''SELECT * FROM root r WHERE r.account_number='' @
                 quote @ a @ quote))])]"
  using assms unfolding QueryDocuments_def
  by (auto elim!: bind_elim simp: step_defs ran_def nl_def banner_simps query_text_str
      split: prod.splits)

lemma ReplaceDocument_ran:
  assumes "ReplaceDocument sdk cfg env order w = (r, w')"
  shows "\<exists>cs. ran w w' [''ReplaceDocument''] cs \<and>
           (cs = [] \<and> (\<exists>e. r = Inl e) \<or> (\<exists>link d. cs = [Call_ReplaceDocument link d]))"
  using assms unfolding ReplaceDocument_def
  by (auto elim!: bind_elim simp: step_defs ran_def nl_def banner_simps now_strftime_eq
      split: prod.splits)

lemma run_sample_body_ran:
  assumes "run_sample_body sdk cfg env w = (r, w')"
  shows "\<exists>ops cs. ran w w' ops cs \<and> prefix ops sample_operations \<and>
           prefix (map method_of cs) sample_methods \<and>
           prefix [''Initialize''] ops \<and>
           prefix [Call_CreateDatabase (database_definition cfg)] cs \<and>
           (r = Inr () \<longrightarrow>
              ops = sample_operations \<and>
              (\<exists>link d. cs = sample_calls sdk cfg @ [Call_ReplaceDocument link d]))"
  using assms unfolding run_sample_body_def
proof (elim bind_elim)
  fix e assume "Initialize sdk cfg w = (Inl e, w')" "r = Inl e"
  then show ?thesis
    by (auto dest!: Initialize_ran simp: sample_operations_def sample_methods_def ran_def)
next
  fix u w1 e
  assume "Initialize sdk cfg w = (Inr u, w1)"
    "ReadDocument sdk cfg (PStr ''SalesOrder1'') (PStr ''Account1'') w1 = (Inl e, w')"
    "r = Inl e"
  then show ?thesis
    by (auto dest!: Initialize_ran ReadDocument_ran
        simp: sample_operations_def sample_methods_def ran_def)
next
  fix u w1 u2 w2 e
  assume "Initialize sdk cfg w = (Inr u, w1)"
    "ReadDocument sdk cfg (PStr ''SalesOrder1'') (PStr ''Account1'') w1 = (Inr u2, w2)"
    "ReadDocuments sdk cfg w2 = (Inl e, w')" "r = Inl e"
  then show ?thesis
    by (auto dest!: Initialize_ran ReadDocument_ran ReadDocuments_ran
        simp: sample_operations_def sample_methods_def ran_def)
next
  fix u w1 u2 w2 u3 w3 e
  assume "Initialize sdk cfg w = (Inr u, w1)"
    "ReadDocument sdk cfg (PStr ''SalesOrder1'') (PStr ''Account1'') w1 = (Inr u2, w2)"
    "ReadDocuments sdk cfg w2 = (Inr u3, w3)"
    "QueryDocuments sdk cfg (PStr ''Account1'') w3 = (Inl e, w')" "r = Inl e"
  then show ?thesis
    by (auto dest!: Initialize_ran ReadDocument_ran ReadDocuments_ran QueryDocuments_ran
        simp: sample_operations_def sample_methods_def ran_def)
next
  fix u w1 u2 w2 u3 w3 order w4 e
  assume "Initialize sdk cfg w = (Inr u, w1)"
    "ReadDocument sdk cfg (PStr ''SalesOrder1'') (PStr ''Account1'') w1 = (Inr u2, w2)"
    "ReadDocuments sdk cfg w2 = (Inr u3, w3)"
    "QueryDocuments sdk cfg (PStr ''Account1'') w3 = (Inr order, w4)"
    "ReplaceDocument sdk cfg env order w4 = (Inl e, w')" "r = Inl e"
  then show ?thesis
    by (auto dest!: Initialize_ran ReadDocument_ran ReadDocuments_ran QueryDocuments_ran
        ReplaceDocument_ran simp: sample_operations_def sample_methods_def ran_def)
next
  fix u w1 u2 w2 u3 w3 order w4 v w5
  assume "Initialize sdk cfg w = (Inr u, w1)"
    "ReadDocument sdk cfg (PStr ''SalesOrder1'') (PStr ''Account1'') w1 = (Inr u2, w2)"
    "ReadDocuments sdk cfg w2 = (Inr u3, w3)"
    "QueryDocuments sdk cfg (PStr ''Account1'') w3 = (Inr order, w4)"
    "ReplaceDocument sdk cfg env order w4 = (Inr v, w5)" "ret () w5 = (r, w')"
  then show ?thesis
    by (auto dest!: Initialize_ran ReadDocument_ran ReadDocuments_ran QueryDocuments_ran
        ReplaceDocument_ran
        simp: sample_operations_def sample_methods_def sample_calls_def ran_def ret_def)
qed

lemma try_finally_elim:
  assumes "try_finally m f w = (r, w')"
  obtains w1 where "m w = (r, w1)" and "w' = f w1"
  using assms by (auto simp: try_finally_def split: prod.splits)

lemma with_IDisposable_elim:
  assumes "with_IDisposable acquire body w = (r, w')"
  obtains e where "acquire w = (Inl e, w')" and "r = Inl e"
  | u w1 where "acquire w = (Inr u, w1)" and "body w1 = (r, w')"
proof (cases "acquire w")
  case (Pair r0 w0)
  show ?thesis
  proof (cases r0)
    case (Inl e)
    with Pair assms have "acquire w = (Inl e, w')" and "r = Inl e"
      by (simp_all add: with_IDisposable_def)
    then show ?thesis by (rule that(1))
  next
    case (Inr u)
    with Pair assms have "acquire w = (Inr u, w0)" and "body w0 = (r, w')"
      by (simp_all add: with_IDisposable_def IDisposable_exit_def ret_def split: prod.splits)
    then show ?thesis by (rule that(2))
  qed
qed

lemma except_HTTPFailure_ran: "except_HTTPFailure env e w = (r, w') \<Longrightarrow> ran w w' [] []"
  by (auto simp: except_HTTPFailure_def step_defs ran_def nl_def banner_simps split: if_splits)

lemma invoke_ran: "invoke c f w = (r, w') \<Longrightarrow> ran w w' [] [c]"
  by (auto simp: invoke_def ran_def split: prod.splits)

lemma invoke_result: "invoke c f w = (r, w') \<Longrightarrow> fst (f (client w)) = r"
  by (auto simp: invoke_def split: prod.splits)

lemma run_sample_done_ran: "ran w (put_line (Line (nl @ ''run_sample done'') []) w) [] []"
  by (simp add: put_line_def ran_def nl_def banner_simps)

text \<open>Every run: the constructor is called first; what follows is an initial part of the
  sequence, and not an empty one when the constructor returns.\<close>

lemma run_sample_ran:
  assumes "run_sample sdk cfg env w = (r, w')"
  shows "\<exists>ops cs.
           ran w w' ops
             (Call_DocumentClient (HOST cfg) (PDict [(''masterKey'', PStr (MASTER_KEY cfg))]) #
              cs) \<and>
           prefix ops sample_operations \<and> prefix (map method_of cs) sample_methods \<and>
           (fst (c_DocumentClient sdk (client w) (HOST cfg)
              (PDict [(''masterKey'', PStr (MASTER_KEY cfg))])) = Inr () \<longrightarrow>
            prefix [''Initialize''] ops \<and>
            prefix [Call_CreateDatabase (database_definition cfg)] cs)"
  using assms unfolding run_sample_def
proof (elim with_IDisposable_elim try_finally_elim try_except_elim)
  fix e
  assume ctor: "invoke (Call_DocumentClient (HOST cfg)
            (PDict [(''masterKey'', PStr (MASTER_KEY cfg))]))
            (\<lambda>c. c_DocumentClient sdk c (HOST cfg)
               (PDict [(''masterKey'', PStr (MASTER_KEY cfg))])) w = (Inl e, w')"
  from invoke_ran [OF ctor] invoke_result [OF ctor] show ?thesis
    by (intro exI [of _ "[]"]) simp
next
  fix u w1 w2 x
  assume ctor: "invoke (Call_DocumentClient (HOST cfg)
            (PDict [(''masterKey'', PStr (MASTER_KEY cfg))]))
            (\<lambda>c. c_DocumentClient sdk c (HOST cfg)
               (PDict [(''masterKey'', PStr (MASTER_KEY cfg))])) w = (Inr u, w1)"
    and w': "w' = put_line (Line (nl @ ''run_sample done'') []) w2"
    and body: "run_sample_body sdk cfg env w1 = (Inr x, w2)"
  from run_sample_body_ran [OF body] obtain ops cs where
    b: "ran w1 w2 ops cs" "prefix ops sample_operations"
    "prefix (map method_of cs) sample_methods" "prefix [''Initialize''] ops"
    "prefix [Call_CreateDatabase (database_definition cfg)] cs"
    by blast
  from ran_trans [OF ran_trans [OF invoke_ran [OF ctor] b(1)] run_sample_done_ran] w'
  have "ran w w' ops (Call_DocumentClient (HOST cfg)
      (PDict [(''masterKey'', PStr (MASTER_KEY cfg))]) # cs)"
    by simp
  with b show ?thesis
    by (intro exI [of _ ops] exI [of _ cs]) simp
next
  fix u w1 w2 e wb
  assume ctor: "invoke (Call_DocumentClient (HOST cfg)
            (PDict [(''masterKey'', PStr (MASTER_KEY cfg))]))
            (\<lambda>c. c_DocumentClient sdk c (HOST cfg)
               (PDict [(''masterKey'', PStr (MASTER_KEY cfg))])) w = (Inr u, w1)"
    and w': "w' = put_line (Line (nl @ ''run_sample done'') []) w2"
    and body: "run_sample_body sdk cfg env w1 = (Inl e, wb)"
    and handler: "except_HTTPFailure env e wb = (r, w2)"
  from run_sample_body_ran [OF body] obtain ops cs where
    b: "ran w1 wb ops cs" "prefix ops sample_operations"
    "prefix (map method_of cs) sample_methods" "prefix [''Initialize''] ops"
    "prefix [Call_CreateDatabase (database_definition cfg)] cs"
    by blast
  from ran_trans [OF ran_trans [OF ran_trans [OF invoke_ran [OF ctor] b(1)]
      except_HTTPFailure_ran [OF handler]] run_sample_done_ran] w'
  have "ran w w' ops (Call_DocumentClient (HOST cfg)
      (PDict [(''masterKey'', PStr (MASTER_KEY cfg))]) # cs)"
    by simp
  with b show ?thesis
    by (intro exI [of _ ops] exI [of _ cs]) simp
qed

text \<open>A run whose constructor returns and whose \<open>try\<close> block runs to its end.\<close>

lemma run_sample_complete:
  assumes "c_DocumentClient sdk (client w) (HOST cfg)
             (PDict [(''masterKey'', PStr (MASTER_KEY cfg))]) = (Inr (), c0)"
    and "run_sample_body sdk cfg env
           (w\<lparr>client := c0,
              calls := calls w @
                [Call_DocumentClient (HOST cfg)
                   (PDict [(''masterKey'', PStr (MASTER_KEY cfg))])]\<rparr>) = (Inr (), w2)"
  shows "run_sample sdk cfg env w =
           (Inr (), put_line (Line (nl @ ''run_sample done'') []) w2)"
  using assms
  by (simp add: run_sample_def with_IDisposable_def IDisposable_exit_def invoke_def
      try_finally_def try_except_def ret_def)

lemma not_in_prefix: "prefix xs ys \<Longrightarrow> x \<notin> set ys \<Longrightarrow> x \<notin> set xs"
  using set_mono_prefix by blast

text \<open>
  Claim C9. In every run of \<open>run_sample\<close>, whatever the client does: the first call is
  the constructor of the client; the operations entered are an initial part of
  \<open>Initialize\<close>, \<open>ReadDocument\<close>, \<open>ReadDocuments\<close>, \<open>QueryDocuments\<close>,
  \<open>ReplaceDocument\<close> (an exception ends the sequence early), and the calls that follow
  the constructor an initial part of the methods these operations call;
  \<open>CreateDocuments\<close> is never entered and \<open>CreateDocument\<close> never called; when the
  constructor returns, \<open>Initialize\<close> is entered and \<open>CreateDatabase\<close> called. When the
  constructor returns and the \<open>try\<close> block then runs to its end, \<open>run_sample\<close> returns
  normally, the operations it has entered are exactly these five, in this order, and the
  calls it has made are exactly the constructor, the two setup calls, \<open>ReadDocument\<close> for
  \<open>SalesOrder1\<close> with the partition key \<open>Account1\<close>, \<open>ReadDocuments\<close>, the query for
  \<open>Account1\<close>, and one \<open>ReplaceDocument\<close>.
\<close>

theorem run_sample_call_sequence:
  "(\<exists>ops cs.
      operations (console (snd (run_sample sdk cfg env w))) = operations (console w) @ ops \<and>
      calls (snd (run_sample sdk cfg env w)) =
        calls w @
        Call_DocumentClient (HOST cfg) (PDict [(''masterKey'', PStr (MASTER_KEY cfg))]) # cs \<and>
      prefix ops
        [''Initialize'', ''ReadDocument'', ''ReadDocuments'', ''QueryDocuments'',
         ''ReplaceDocument''] \<and>
      prefix (map method_of cs)
        [''CreateDatabase'', ''CreateCollection'', ''ReadDocument'', ''ReadDocuments'',
         ''QueryDocuments'', ''ReplaceDocument''] \<and>
      ''CreateDocuments'' \<notin> set ops \<and>
      ''CreateDocument'' \<notin> set (map method_of cs) \<and>
      (fst (c_DocumentClient sdk (client w) (HOST cfg)
         (PDict [(''masterKey'', PStr (MASTER_KEY cfg))])) = Inr () \<longrightarrow>
       prefix [''Initialize''] ops \<and>
       prefix [Call_CreateDatabase (database_definition cfg)] cs)) \<and>
   (c_DocumentClient sdk (client w) (HOST cfg)
      (PDict [(''masterKey'', PStr (MASTER_KEY cfg))]) = (Inr (), c0) \<and>
    fst (run_sample_body sdk cfg env
           (w\<lparr>client := c0,
              calls := calls w @
                [Call_DocumentClient (HOST cfg)
                   (PDict [(''masterKey'', PStr (MASTER_KEY cfg))])]\<rparr>)) = Inr () \<longrightarrow>
      fst (run_sample sdk cfg env w) = Inr () \<and>
      operations (console (snd (run_sample sdk cfg env w))) =
        operations (console w) @
        [''Initialize'', ''ReadDocument'', ''ReadDocuments'', ''QueryDocuments'',
         ''ReplaceDocument''] \<and>
      (\<exists>link d. calls (snd (run_sample sdk cfg env w)) =
         calls w @
         [Call_DocumentClient (HOST cfg) (PDict [(''masterKey'', PStr (MASTER_KEY cfg))]),
          Call_CreateDatabase (database_definition cfg),
          Call_CreateCollection (database_link cfg) (collection_definition sdk cfg),
          Call_ReadDocument (collection_link cfg @ ''/docs/SalesOrder1'')
            (PDict [(''partitionKey'', PStr ''Account1'')]),
          Call_ReadDocuments (collection_link cfg) (PDict [(''maxItemCount'', PInt 10)]),
          Call_QueryDocuments (collection_link cfg)
            (PDict [(''query'',
               PStr (''SELECT * FROM root r WHERE r.account_number='' @ quote @
                 ''Account1'' @ quote))]),
          Call_ReplaceDocument link d]))"
proof (rule conjI)
  obtain r w' where run: "run_sample sdk cfg env w = (r, w')"
    by (cases "run_sample sdk cfg env w")
  from run_sample_ran [OF run] obtain ops cs where
    ran: "ran w w' ops
           (Call_DocumentClient (HOST cfg) (PDict [(''masterKey'', PStr (MASTER_KEY cfg))]) #
            cs)"
    and ops: "prefix ops sample_operations"
    and cs: "prefix (map method_of cs) sample_methods"
    and start: "fst (c_DocumentClient sdk (client w) (HOST cfg)
              (PDict [(''masterKey'', PStr (MASTER_KEY cfg))])) = Inr () \<longrightarrow>
            prefix [''Initialize''] ops \<and>
            prefix [Call_CreateDatabase (database_definition cfg)] cs"
    by blast
  have "''CreateDocuments'' \<notin> set ops"
    using ops by (rule not_in_prefix) (simp add: sample_operations_def)
  moreover have "''CreateDocument'' \<notin> set (map method_of cs)"
    using cs by (rule not_in_prefix) (simp add: sample_methods_def)
  ultimately show "\<exists>ops cs.
      operations (console (snd (run_sample sdk cfg env w))) = operations (console w) @ ops \<and>
      calls (snd (run_sample sdk cfg env w)) =
        calls w @
        Call_DocumentClient (HOST cfg) (PDict [(''masterKey'', PStr (MASTER_KEY cfg))]) # cs \<and>
      prefix ops
        [''Initialize'', ''ReadDocument'', ''ReadDocuments'', ''QueryDocuments'',
         ''ReplaceDocument''] \<and>
      prefix (map method_of cs)
        [''CreateDatabase'', ''CreateCollection'', ''ReadDocument'', ''ReadDocuments'',
         ''QueryDocuments'', ''ReplaceDocument''] \<and>
      ''CreateDocuments'' \<notin> set ops \<and>
      ''CreateDocument'' \<notin> set (map method_of cs) \<and>
      (fst (c_DocumentClient sdk (client w) (HOST cfg)
         (PDict [(''masterKey'', PStr (MASTER_KEY cfg))])) = Inr () \<longrightarrow>
       prefix [''Initialize''] ops \<and>
       prefix [Call_CreateDatabase (database_definition cfg)] cs)"
    using run ran ops cs start unfolding ran_def sample_operations_def sample_methods_def
    by (intro exI [of _ ops] exI [of _ cs]) simp
next
  show "c_DocumentClient sdk (client w) (HOST cfg)
      (PDict [(''masterKey'', PStr (MASTER_KEY cfg))]) = (Inr (), c0) \<and>
    fst (run_sample_body sdk cfg env
           (w\<lparr>client := c0,
              calls := calls w @
                [Call_DocumentClient (HOST cfg)
                   (PDict [(''masterKey'', PStr (MASTER_KEY cfg))])]\<rparr>)) = Inr () \<longrightarrow>
      fst (run_sample sdk cfg env w) = Inr () \<and>
      operations (console (snd (run_sample sdk cfg env w))) =
        operations (console w) @
        [''Initialize'', ''ReadDocument'', ''ReadDocuments'', ''QueryDocuments'',
         ''ReplaceDocument''] \<and>
      (\<exists>link d. calls (snd (run_sample sdk cfg env w)) =
         calls w @
         [Call_DocumentClient (HOST cfg) (PDict [(''masterKey'', PStr (MASTER_KEY cfg))]),
          Call_CreateDatabase (database_definition cfg),
          Call_CreateCollection (database_link cfg) (collection_definition sdk cfg),
          Call_ReadDocument (collection_link cfg @ ''/docs/SalesOrder1'')
            (PDict [(''partitionKey'', PStr ''Account1'')]),
          Call_ReadDocuments (collection_link cfg) (PDict [(''maxItemCount'', PInt 10)]),
          Call_QueryDocuments (collection_link cfg)
            (PDict [(''query'',
               PStr (''SELECT * FROM root r WHERE r.account_number='' @ quote @
                 ''Account1'' @ quote))]),
          Call_ReplaceDocument link d])"
  proof
    assume h: "c_DocumentClient sdk (client w) (HOST cfg)
        (PDict [(''masterKey'', PStr (MASTER_KEY cfg))]) = (Inr (), c0) \<and>
      fst (run_sample_body sdk cfg env
             (w\<lparr>client := c0,
                calls := calls w @
                  [Call_DocumentClient (HOST cfg)
                     (PDict [(''masterKey'', PStr (MASTER_KEY cfg))])]\<rparr>)) = Inr ()"
    define w1 where "w1 = w\<lparr>client := c0,
                calls := calls w @
                  [Call_DocumentClient (HOST cfg)
                     (PDict [(''masterKey'', PStr (MASTER_KEY cfg))])]\<rparr>"
    define w2 where "w2 = snd (run_sample_body sdk cfg env w1)"
    from h have ctor: "c_DocumentClient sdk (client w) (HOST cfg)
        (PDict [(''masterKey'', PStr (MASTER_KEY cfg))]) = (Inr (), c0)"
      and body: "run_sample_body sdk cfg env w1 = (Inr (), w2)"
      by (simp_all add: w1_def w2_def prod_eq_iff)
    from run_sample_body_ran [OF body] obtain link d where
      b: "ran w1 w2 sample_operations (sample_calls sdk cfg @ [Call_ReplaceDocument link d])"
      by blast
    have run: "run_sample sdk cfg env w =
        (Inr (), put_line (Line (nl @ ''run_sample done'') []) w2)"
      using ctor body unfolding w1_def by (rule run_sample_complete)
    have "ran w (put_line (Line (nl @ ''run_sample done'') []) w2) sample_operations
        (Call_DocumentClient (HOST cfg) (PDict [(''masterKey'', PStr (MASTER_KEY cfg))]) #
         sample_calls sdk cfg @ [Call_ReplaceDocument link d])"
      using b run_sample_done_ran [of w2]
      by (simp add: ran_def w1_def)
    with run show "fst (run_sample sdk cfg env w) = Inr () \<and>
      operations (console (snd (run_sample sdk cfg env w))) =
        operations (console w) @
        [''Initialize'', ''ReadDocument'', ''ReadDocuments'', ''QueryDocuments'',
         ''ReplaceDocument''] \<and>
      (\<exists>link d. calls (snd (run_sample sdk cfg env w)) =
         calls w @
         [Call_DocumentClient (HOST cfg) (PDict [(''masterKey'', PStr (MASTER_KEY cfg))]),
          Call_CreateDatabase (database_definition cfg),
          Call_CreateCollection (database_link cfg) (collection_definition sdk cfg),
          Call_ReadDocument (collection_link cfg @ ''/docs/SalesOrder1'')
            (PDict [(''partitionKey'', PStr ''Account1'')]),
          Call_ReadDocuments (collection_link cfg) (PDict [(''maxItemCount'', PInt 10)]),
          Call_QueryDocuments (collection_link cfg)
            (PDict [(''query'',
               PStr (''SELECT * FROM root r WHERE r.account_number='' @ quote @
                 ''Account1'' @ quote))]),
          Call_ReplaceDocument link d])"
      by (auto simp: ran_def sample_operations_def sample_calls_def)
  qed
qed

lemma seeded_run:
  "client w = seeded_service \<Longrightarrow> fst (run_sample_body mock_sdk cfg0 env0 w) = Inr ()"
  by (simp add: run_sample_body_def Initialize_def ReadDocument_def ReadDocuments_def
      QueryDocuments_def ReplaceDocument_def except_DocumentDBError_def query_text_def
      bindE_def now_strftime_eq prog_defs mock_sdk_def mock_CreateDatabase_def
      mock_CreateCollection_def mock_ReadDocument_def mock_ReadDocuments_def
      mock_QueryDocuments_def mock_ReplaceDocument_def seeded_service_def order1_def
      cfg0_def env0_def collection_link_def database_link_def
      database_definition_def collection_definition_def dict_getitem_def dict_get_def quote_def)

theorem run_sample_call_sequence_witness:
  "c_DocumentClient mock_sdk (client (world0 seeded_service)) (HOST cfg0)
     (PDict [(''masterKey'', PStr (MASTER_KEY cfg0))]) = (Inr (), seeded_service) \<and>
   fst (run_sample mock_sdk cfg0 env0 (world0 seeded_service)) = Inr () \<and>
   operations (console (snd (run_sample mock_sdk cfg0 env0 (world0 seeded_service)))) =
     [''Initialize'', ''ReadDocument'', ''ReadDocuments'', ''QueryDocuments'',
      ''ReplaceDocument''] \<and>
   map method_of (calls (snd (run_sample mock_sdk cfg0 env0 (world0 seeded_service)))) =
     [''DocumentClient'', ''CreateDatabase'', ''CreateCollection'', ''ReadDocument'',
      ''ReadDocuments'', ''QueryDocuments'', ''ReplaceDocument'']"
proof -
  have ctor: "c_DocumentClient mock_sdk (client (world0 seeded_service)) (HOST cfg0)
      (PDict [(''masterKey'', PStr (MASTER_KEY cfg0))]) = (Inr (), seeded_service)"
    by (simp add: mock_sdk_def world0_def)
  have body: "fst (run_sample_body mock_sdk cfg0 env0
      ((world0 seeded_service)\<lparr>client := seeded_service,
         calls := calls (world0 seeded_service) @
           [Call_DocumentClient (HOST cfg0)
              (PDict [(''masterKey'', PStr (MASTER_KEY cfg0))])]\<rparr>)) = Inr ()"
    by (rule seeded_run) simp
  from run_sample_call_sequence
    [where sdk = mock_sdk and cfg = cfg0 and env = env0 and w = "world0 seeded_service"
       and ?c0.0 = seeded_service] ctor body
  have "fst (run_sample mock_sdk cfg0 env0 (world0 seeded_service)) = Inr () \<and>
      operations (console (snd (run_sample mock_sdk cfg0 env0 (world0 seeded_service)))) =
        operations (console (world0 seeded_service)) @
        [''Initialize'', ''ReadDocument'', ''ReadDocuments'', ''QueryDocuments'',
         ''ReplaceDocument''] \<and>
      (\<exists>link d. calls (snd (run_sample mock_sdk cfg0 env0 (world0 seeded_service))) =
         calls (world0 seeded_service) @
         [Call_DocumentClient (HOST cfg0) (PDict [(''masterKey'', PStr (MASTER_KEY cfg0))]),
          Call_CreateDatabase (database_definition cfg0),
          Call_CreateCollection (database_link cfg0) (collection_definition mock_sdk cfg0),
          Call_ReadDocument (collection_link cfg0 @ ''/docs/SalesOrder1'')
            (PDict [(''partitionKey'', PStr ''Account1'')]),
          Call_ReadDocuments (collection_link cfg0) (PDict [(''maxItemCount'', PInt 10)]),
          Call_QueryDocuments (collection_link cfg0)
            (PDict [(''query'',
               PStr (''SELECT * FROM root r WHERE r.account_number='' @ quote @
                 ''Account1'' @ quote))]),
          Call_ReplaceDocument link d])"
    by blast
  with ctor show ?thesis
    by (auto simp: world0_def)
qed

subsection \<open>The client is never closed\<close>

text \<open>
  Claim C3 says that the client handle is released (its close method invoked) on every
  exit path of \<open>run_sample\<close>. The code does not do it on any path: for every client,
  configuration and starting world, no call of \<open>close\<close> is among the calls
  \<open>run_sample\<close> makes. \<open>IDisposable.__exit__\<close> is reached on every path, but its
  body is \<open>self = None\<close>.
\<close>

theorem run_sample_never_closes:
  "\<exists>cs. calls (snd (run_sample sdk cfg env w)) = calls w @ cs \<and> Call_close \<notin> set cs"
proof -
  obtain r w' where run: "run_sample sdk cfg env w = (r, w')"
    by (cases "run_sample sdk cfg env w")
  from run_sample_ran [OF run] obtain ops cs where
    ran: "ran w w' ops
           (Call_DocumentClient (HOST cfg) (PDict [(''masterKey'', PStr (MASTER_KEY cfg))]) #
            cs)"
    and cs: "prefix (map method_of cs) sample_methods"
    by blast
  have "''close'' \<notin> set (map method_of cs)"
    using cs by (rule not_in_prefix) (simp add: sample_methods_def)
  then have "Call_close \<notin> set
      (Call_DocumentClient (HOST cfg) (PDict [(''masterKey'', PStr (MASTER_KEY cfg))]) # cs)"
    by force
  with ran run show ?thesis
    by (auto simp: ran_def)
qed

end
